theory Spec2Isabelle
  imports Main
begin

section \<open>JavaScript values\<close>

text \<open>
  The skill is JavaScript (\<^verbatim>\<open>src/index.js\<close>) and TypeScript compiled to JavaScript
  (\<^verbatim>\<open>src/unnamed/part_001\<close>, the api module). Parsed JSON bodies, action results and
  the acting username are JavaScript values. Numbers are the integers that JavaScript
  prints in plain decimal; strings are byte strings. An object is the list of its fields in insertion order, with distinct keys as
  \<^verbatim>\<open>JSON.parse\<close> builds it.
\<close>

datatype jsval =
    JUndefined
  | JNull
  | JBool bool
  | JNum int
  | JStr string
  | JArr "jsval list"
  | JObj "(string \<times> jsval) list"

text \<open>What a \<^verbatim>\<open>throw\<close> or a rejected promise carries: \<^verbatim>\<open>new Error(message)\<close>, the
  engine's TypeError (property of null or undefined, call of a non-function), the
  SyntaxError of \<^verbatim>\<open>response.json()\<close> on a body that is not JSON, and the rejection of
  \<^verbatim>\<open>fetch\<close> itself.\<close>

datatype error = Error string | TypeError | SyntaxError | NetworkError

text \<open>Truthiness, as \<^verbatim>\<open>if (x)\<close>, \<^verbatim>\<open>!x\<close> and \<^verbatim>\<open>x || y\<close> read a value.\<close>

fun truthy :: "jsval \<Rightarrow> bool" where
  "truthy JUndefined = False"
| "truthy JNull = False"
| "truthy (JBool b) = b"
| "truthy (JNum n) = (n \<noteq> 0)"
| "truthy (JStr s) = (s \<noteq> [])"
| "truthy (JArr xs) = True"
| "truthy (JObj kvs) = True"

definition or_js :: "jsval \<Rightarrow> jsval \<Rightarrow> jsval" where
  "or_js a b = (if truthy a then a else b)"

definition nullish :: "jsval \<Rightarrow> bool" where
  "nullish v = (v = JUndefined \<or> v = JNull)"

text \<open>An optional string field of an object: absent is \<^verbatim>\<open>undefined\<close>.\<close>

fun sv :: "string option \<Rightarrow> jsval" where
  "sv None = JUndefined"
| "sv (Some s) = JStr s"

text \<open>A destructuring default \<^verbatim>\<open>{ x = d } = args\<close> applies when the field is undefined only.\<close>

fun dflt :: "'a option \<Rightarrow> 'a \<Rightarrow> 'a" where
  "dflt None d = d"
| "dflt (Some x) d = x"

subsection \<open>Conversion to string (template literals)\<close>

function dec :: "nat \<Rightarrow> string" where
  "dec n = (if n < 10 then [char_of (48 + n)] else dec (n div 10) @ [char_of (48 + n mod 10)])"
  by pat_completeness auto
termination
  by (relation "measure id") auto

declare dec.simps [simp del]

definition show_int :: "int \<Rightarrow> string" where
  "show_int i = (if i < 0 then CHR ''-'' # dec (nat (- i)) else dec (nat i))"

fun join_comma :: "string list \<Rightarrow> string" where
  "join_comma [] = []"
| "join_comma [x] = x"
| "join_comma (x # y # ys) = x @ '','' @ join_comma (y # ys)"

fun tostr :: "jsval \<Rightarrow> string" where
  "tostr JUndefined = ''undefined''"
| "tostr JNull = ''null''"
| "tostr (JBool b) = (if b then ''true'' else ''false'')"
| "tostr (JNum n) = show_int n"
| "tostr (JStr s) = s"
| "tostr (JArr xs) = join_comma (map (\<lambda>x. if x = JUndefined \<or> x = JNull then [] else tostr x) xs)"
| "tostr (JObj kvs) = ''[object Object]''"

subsection \<open>Property access\<close>

text \<open>\<^verbatim>\<open>v.k\<close> for the keys the skill reads (none of them is a property of a string, number,
  boolean or array prototype): a TypeError on null and undefined, the field of an object,
  undefined otherwise.\<close>

fun getp :: "jsval \<Rightarrow> string \<Rightarrow> error + jsval" where
  "getp JUndefined k = Inl TypeError"
| "getp JNull k = Inl TypeError"
| "getp (JObj kvs) k = Inr (case map_of kvs k of None \<Rightarrow> JUndefined | Some v \<Rightarrow> v)"
| "getp v k = Inr JUndefined"

text \<open>One expression that may throw after another.\<close>

definition and_then :: "error + 'a \<Rightarrow> ('a \<Rightarrow> error + 'b) \<Rightarrow> error + 'b" where
  "and_then r f = (case r of Inl e \<Rightarrow> Inl e | Inr x \<Rightarrow> f x)"

text \<open>\<^verbatim>\<open>String.prototype.toLowerCase\<close> belongs to the JavaScript engine, not to the
  repository: it maps a string to a string by the Unicode case mapping. What calls it
  takes it as the parameter \<open>toLowerCase\<close>, and what is proved holds for every such
  function.

  \<^verbatim>\<open>v?.toLowerCase()\<close>: undefined on null and undefined, the lowered string on a
  string, a TypeError (call of undefined) on anything else.\<close>

fun opt_toLowerCase :: "(string \<Rightarrow> string) \<Rightarrow> jsval \<Rightarrow> error + jsval" where
  "opt_toLowerCase toLowerCase JUndefined = Inr JUndefined"
| "opt_toLowerCase toLowerCase JNull = Inr JUndefined"
| "opt_toLowerCase toLowerCase (JStr s) = Inr (JStr (toLowerCase s))"
| "opt_toLowerCase toLowerCase v = Inl TypeError"

text \<open>\<^verbatim>\<open>xs.slice(0, e)\<close>: a negative end counts from the length.\<close>

definition slice0 :: "int \<Rightarrow> 'a list \<Rightarrow> 'a list" where
  "slice0 e xs = (if e < 0 then take (nat (int (length xs) + e)) xs else take (nat e) xs)"

text \<open>\<^verbatim>\<open>v.slice(0, e)\<close>: arrays and strings have it; null and undefined have no properties
  and on the rest it is not a function.\<close>

fun slice_js :: "jsval \<Rightarrow> int \<Rightarrow> error + jsval" where
  "slice_js (JArr xs) e = Inr (JArr (slice0 e xs))"
| "slice_js (JStr s) e = Inr (JStr (slice0 e s))"
| "slice_js v e = Inl TypeError"

fun length_js :: "jsval \<Rightarrow> error + jsval" where
  "length_js (JArr xs) = Inr (JNum (int (length xs)))"
| "length_js (JStr s) = Inr (JNum (int (length s)))"
| "length_js JUndefined = Inl TypeError"
| "length_js JNull = Inl TypeError"
| "length_js v = Inr JUndefined"

text \<open>\<^verbatim>\<open>v.substring(0, 7)\<close>: strings only.\<close>

fun substring07 :: "jsval \<Rightarrow> error + jsval" where
  "substring07 (JStr s) = Inr (JStr (take 7 s))"
| "substring07 v = Inl TypeError"

text \<open>\<^verbatim>\<open>v?.substring(0, 7)\<close>.\<close>

fun opt_substring07 :: "jsval \<Rightarrow> error + jsval" where
  "opt_substring07 JUndefined = Inr JUndefined"
| "opt_substring07 JNull = Inr JUndefined"
| "opt_substring07 v = substring07 v"

text \<open>\<^verbatim>\<open>v.split('\n')[0]\<close>: the characters before the first line feed; strings only.\<close>

definition first_line :: "string \<Rightarrow> string" where
  "first_line s = takeWhile (\<lambda>c. c \<noteq> CHR 0x0A) s"

fun split_nl_0 :: "jsval \<Rightarrow> error + jsval" where
  "split_nl_0 (JStr s) = Inr (JStr (first_line s))"
| "split_nl_0 v = Inl TypeError"

text \<open>\<^verbatim>\<open>xs.map(f)\<close> with a callback that may throw: the first exception ends the map.\<close>

fun mapE :: "('a \<Rightarrow> error + 'b) \<Rightarrow> 'a list \<Rightarrow> error + 'b list" where
  "mapE f [] = Inr []"
| "mapE f (x # xs) =
     (case f x of Inl e \<Rightarrow> Inl e
      | Inr y \<Rightarrow> (case mapE f xs of Inl e \<Rightarrow> Inl e | Inr ys \<Rightarrow> Inr (y # ys)))"

fun filterE :: "('a \<Rightarrow> error + bool) \<Rightarrow> 'a list \<Rightarrow> error + 'a list" where
  "filterE p [] = Inr []"
| "filterE p (x # xs) =
     (case p x of Inl e \<Rightarrow> Inl e
      | Inr b \<Rightarrow> (case filterE p xs of Inl e \<Rightarrow> Inl e | Inr ys \<Rightarrow> Inr (if b then x # ys else ys)))"

text \<open>\<^verbatim>\<open>v.map(f)\<close> and \<^verbatim>\<open>v.filter(p)\<close>: arrays only.\<close>

fun map_js :: "(jsval \<Rightarrow> error + jsval) \<Rightarrow> jsval \<Rightarrow> error + jsval" where
  "map_js f (JArr xs) = (case mapE f xs of Inl e \<Rightarrow> Inl e | Inr ys \<Rightarrow> Inr (JArr ys))"
| "map_js f v = Inl TypeError"

fun filter_js :: "(jsval \<Rightarrow> error + bool) \<Rightarrow> jsval \<Rightarrow> error + jsval" where
  "filter_js p (JArr xs) = (case filterE p xs of Inl e \<Rightarrow> Inl e | Inr ys \<Rightarrow> Inr (JArr ys))"
| "filter_js p v = Inl TypeError"

text \<open>\<^verbatim>\<open>{ ...obj, ...extra }\<close>: a key already present keeps its place and takes the new
  value, a new key goes last.\<close>

fun set_prop :: "string \<Rightarrow> jsval \<Rightarrow> (string \<times> jsval) list \<Rightarrow> (string \<times> jsval) list" where
  "set_prop k v [] = [(k, v)]"
| "set_prop k v ((k', v') # kvs) = (if k = k' then (k, v) # kvs else (k', v') # set_prop k v kvs)"

fun spread :: "(string \<times> jsval) list \<Rightarrow> (string \<times> jsval) list \<Rightarrow> (string \<times> jsval) list" where
  "spread obj [] = obj"
| "spread obj ((k, v) # kvs) = spread (set_prop k v obj) kvs"

text \<open>\<^verbatim>\<open>encodeURIComponent\<close>: letters, digits and \<^verbatim>\<open>- _ . ! ~ * ' ( )\<close> stay, every other
  byte becomes \<^verbatim>\<open>%XX\<close>.\<close>

definition hex_digit :: "nat \<Rightarrow> char" where
  "hex_digit n = (if n < 10 then char_of (48 + n) else char_of (55 + n))"

definition unreserved :: "char \<Rightarrow> bool" where
  "unreserved c = (let n = (of_char c :: nat) in
     (65 \<le> n \<and> n \<le> 90) \<or> (97 \<le> n \<and> n \<le> 122) \<or> (48 \<le> n \<and> n \<le> 57) \<or> c \<in> set ''-_.!~*'()'')"

definition encode_char :: "char \<Rightarrow> string" where
  "encode_char c = (if unreserved c then [c]
     else [CHR ''%'', hex_digit ((of_char c :: nat) div 16), hex_digit ((of_char c :: nat) mod 16)])"

definition encodeURIComponent :: "string \<Rightarrow> string" where
  "encodeURIComponent s = concat (map encode_char s)"

section \<open>Process state and the network\<close>

text \<open>\<^verbatim>\<open>process.env\<close>, read on every call and never written by the skill.\<close>

record env =
  GITHUB_TOKEN :: "string option"
  GITHUB_USERNAME :: "string option"

text \<open>The host's context: \<^verbatim>\<open>context.config?.github\<close> with its optional token and username.\<close>

record github_config =
  token :: "string option"
  username :: "string option"

record config =
  github :: "github_config option"

record Context =
  config :: "config option"

text \<open>The parameter object of an action; every field is optional. The fields
  \<^verbatim>\<open>type\<close>, \<^verbatim>\<open>sort\<close> and \<^verbatim>\<open>private\<close> carry a suffix here.\<close>

record args =
  owner :: "string option"
  repo :: "string option"
  title :: "string option"
  body :: "string option"
  head :: "string option"
  base :: "string option"
  type_arg :: "string option"
  sort_arg :: "string option"
  direction :: "string option"
  language :: "string option"
  limit :: "int option"
  query :: "string option"
  name :: "string option"
  description :: "string option"
  private_arg :: "bool option"
  auto_init :: "bool option"
  extra :: "(string \<times> jsval) list option"

record request =
  req_method :: string
  req_url :: string
  req_headers :: "(string \<times> string) list"
  req_body :: "jsval option"

text \<open>An upstream response: its status and its body as \<^verbatim>\<open>response.json()\<close> parses it
  (\<open>None\<close>: the body is not JSON). \<^verbatim>\<open>response.ok\<close> is a status from 200 to 299.
  The body of a POST is kept as the value handed to \<^verbatim>\<open>JSON.stringify\<close>.\<close>

record response =
  status :: nat
  content :: "jsval option"

definition ok :: "response \<Rightarrow> bool" where
  "ok r = (200 \<le> status r \<and> status r \<le> 299)"

definition json :: "response \<Rightarrow> error + jsval" where
  "json r = (case content r of None \<Rightarrow> Inl SyntaxError | Some v \<Rightarrow> Inr v)"

datatype outcome = Fails | Responds response

text \<open>The module's state (\<^verbatim>\<open>let cachedUser = null\<close>) and the world around it: what the
  network will answer to the coming calls of \<^verbatim>\<open>fetch\<close>, in order, and the requests
  issued so far.\<close>

record world =
  cachedUser :: jsval
  upstream :: "outcome list"
  log :: "request list"

type_synonym 'a io = "world \<Rightarrow> (error + 'a) \<times> world"

definition return_js :: "'a \<Rightarrow> 'a io" where
  "return_js x = (\<lambda>w. (Inr x, w))"

definition throw :: "error \<Rightarrow> 'a io" where
  "throw e = (\<lambda>w. (Inl e, w))"

text \<open>\<^verbatim>\<open>const x = await m; rest\<close>: an exception of \<open>m\<close> ends the function.\<close>

definition await :: "'a io \<Rightarrow> ('a \<Rightarrow> 'b io) \<Rightarrow> 'b io" where
  "await m f = (\<lambda>w. case m w of (Inl e, w') \<Rightarrow> (Inl e, w') | (Inr x, w') \<Rightarrow> f x w')"

text \<open>An expression that may throw, then the rest of the function.\<close>

definition eval_js :: "error + 'a \<Rightarrow> ('a \<Rightarrow> 'b io) \<Rightarrow> 'b io" where
  "eval_js r f = (case r of Inl e \<Rightarrow> throw e | Inr x \<Rightarrow> f x)"

text \<open>\<^verbatim>\<open>fetch\<close>: the request is recorded; the network fails (also when nothing is left to
  answer) or responds.\<close>

definition fetch :: "request \<Rightarrow> response io" where
  "fetch rq = (\<lambda>w. case upstream w of
       [] \<Rightarrow> (Inl NetworkError, w\<lparr>log := log w @ [rq]\<rparr>)
     | Fails # rest \<Rightarrow> (Inl NetworkError, w\<lparr>upstream := rest, log := log w @ [rq]\<rparr>)
     | Responds r # rest \<Rightarrow> (Inr r, w\<lparr>upstream := rest, log := log w @ [rq]\<rparr>))"

definition GITHUB_API :: string where
  "GITHUB_API = ''https://api.github.com''"

definition get_request :: "string \<Rightarrow> (string \<times> string) list \<Rightarrow> request" where
  "get_request u hs = \<lparr>req_method = ''GET'', req_url = u, req_headers = hs, req_body = None\<rparr>"

definition post_request :: "string \<Rightarrow> (string \<times> string) list \<Rightarrow> jsval \<Rightarrow> request" where
  "post_request u hs b = \<lparr>req_method = ''POST'', req_url = u, req_headers = hs, req_body = Some b\<rparr>"

section \<open>Credential resolution\<close>

text \<open>\<^verbatim>\<open>context.config?.github || {}\<close>.\<close>

definition github_of :: "Context \<Rightarrow> github_config" where
  "github_of context =
     (case config context of
        None \<Rightarrow> \<lparr>token = None, username = None\<rparr>
      | Some c \<Rightarrow> (case github c of None \<Rightarrow> \<lparr>token = None, username = None\<rparr> | Some g \<Rightarrow> g))"

definition base_headers :: "(string \<times> string) list" where
  "base_headers = [(''Accept'', ''application/vnd.github.v3+json''), (''User-Agent'', ''OpenClaw-GitHub-Skill'')]"

text \<open>\<^verbatim>\<open>getAuthHeaders\<close> of the api module.\<close>

definition getAuthHeaders :: "env \<Rightarrow> Context \<Rightarrow> (string \<times> string) list" where
  "getAuthHeaders e context =
     (if truthy (sv (GITHUB_TOKEN e))
      then base_headers @ [(''Authorization'', ''token '' @ tostr (sv (GITHUB_TOKEN e)))]
      else if truthy (sv (token (github_of context)))
      then base_headers @ [(''Authorization'', ''token '' @ tostr (sv (token (github_of context))))]
      else base_headers)"

text \<open>\<^verbatim>\<open>authHeaders\<close> of index.js.\<close>

definition authHeaders :: "env \<Rightarrow> Context \<Rightarrow> (string \<times> string) list" where
  "authHeaders e context =
     (if truthy (sv (GITHUB_TOKEN e))
      then base_headers @ [(''Authorization'', ''token '' @ tostr (sv (GITHUB_TOKEN e)))]
      else if truthy (sv (token (github_of context)))
      then base_headers @ [(''Authorization'', ''token '' @ tostr (sv (token (github_of context))))]
      else base_headers)"

text \<open>\<^verbatim>\<open>getUsername\<close> of the api module: environment, configuration, then the cached
  login, fetched from \<^verbatim>\<open>/user\<close> while the cache is falsy. The status of that response
  is not looked at.\<close>

definition getUsername :: "env \<Rightarrow> Context \<Rightarrow> jsval io" where
  "getUsername e context =
     (if truthy (sv (GITHUB_USERNAME e)) then return_js (sv (GITHUB_USERNAME e))
      else if truthy (sv (username (github_of context))) then return_js (sv (username (github_of context)))
      else (\<lambda>w.
        if \<not> truthy (cachedUser w) then
          await (fetch (get_request (GITHUB_API @ ''/user'') (getAuthHeaders e context))) (\<lambda>response.
            eval_js (json response) (\<lambda>data.
              eval_js (getp data ''login'') (\<lambda>login w'.
                (Inr login, w'\<lparr>cachedUser := login\<rparr>)))) w
        else (Inr (cachedUser w), w)))"

text \<open>\<^verbatim>\<open>getUsername\<close> of index.js.\<close>

definition getUsername_js :: "env \<Rightarrow> Context \<Rightarrow> jsval io" where
  "getUsername_js e context =
     (if truthy (sv (GITHUB_USERNAME e)) then return_js (sv (GITHUB_USERNAME e))
      else if truthy (sv (username (github_of context))) then return_js (sv (username (github_of context)))
      else (\<lambda>w.
        if \<not> truthy (cachedUser w) then
          await (fetch (get_request (GITHUB_API @ ''/user'') (authHeaders e context))) (\<lambda>response.
            eval_js (json response) (\<lambda>data.
              eval_js (getp data ''login'') (\<lambda>login w'.
                (Inr login, w'\<lparr>cachedUser := login\<rparr>)))) w
        else (Inr (cachedUser w), w)))"

section \<open>The actions\<close>

subsection \<open>create\_issue\<close>

definition issue_result :: "jsval \<Rightarrow> error + jsval" where
  "issue_result issue =
     and_then (getp issue ''number'') (\<lambda>n.
     and_then (getp issue ''title'') (\<lambda>t.
     and_then (getp issue ''html_url'') (\<lambda>u.
     and_then (getp issue ''state'') (\<lambda>s.
       Inr (JObj [(''number'', n), (''title'', t), (''url'', u), (''state'', s)])))))"

definition issue_body :: "args \<Rightarrow> jsval" where
  "issue_body a =
     JObj (spread [(''title'', sv (title a)), (''body'', or_js (sv (body a)) (JStr []))]
                  (case extra a of None \<Rightarrow> [] | Some kvs \<Rightarrow> kvs))"

definition issues_url :: "jsval \<Rightarrow> args \<Rightarrow> string" where
  "issues_url uname a = GITHUB_API @ ''/repos/'' @ tostr uname @ ''/'' @ tostr (sv (repo a)) @ ''/issues''"

text \<open>\<^verbatim>\<open>createIssue\<close> of the api module (part\_001, lines 309 to 345).\<close>

definition createIssue :: "env \<Rightarrow> args \<Rightarrow> Context \<Rightarrow> jsval io" where
  "createIssue e a context =
     await (getUsername e context) (\<lambda>uname.
       if \<not> truthy (sv (title a)) then throw (Error ''Issue title required'')
       else
         await (fetch (post_request (issues_url uname a) (getAuthHeaders e context) (issue_body a))) (\<lambda>response.
           if \<not> ok response then
             eval_js (json response) (\<lambda>err.
               eval_js (getp err ''message'') (\<lambda>m.
                 throw (Error (''Failed to create issue: '' @ tostr (or_js m (JNum (int (status response))))))))
           else
             eval_js (json response) (\<lambda>issue.
               eval_js (issue_result issue) return_js)))"

text \<open>\<^verbatim>\<open>createIssue\<close> of index.js (lines 203 to 235).\<close>

definition createIssue_js :: "env \<Rightarrow> args \<Rightarrow> Context \<Rightarrow> jsval io" where
  "createIssue_js e a context =
     await (getUsername_js e context) (\<lambda>uname.
       if \<not> truthy (sv (title a)) then throw (Error ''Issue title required'')
       else
         await (fetch (post_request (issues_url uname a) (authHeaders e context) (issue_body a))) (\<lambda>response.
           if \<not> ok response then
             throw (Error (''Failed to create issue: '' @ tostr (JNum (int (status response)))))
           else
             eval_js (json response) (\<lambda>issue.
               eval_js (issue_result issue) return_js)))"

subsection \<open>Object literals over an upstream value\<close>

text \<open>The fields of \<^verbatim>\<open>{ k1: r.f1, k2: r.f2, ... }\<close>, for the pairs \<open>(k, f)\<close> in order.\<close>

fun project :: "jsval \<Rightarrow> (string \<times> string) list \<Rightarrow> error + (string \<times> jsval) list" where
  "project r [] = Inr []"
| "project r ((k, f) # kfs) =
     and_then (getp r f) (\<lambda>v. and_then (project r kfs) (\<lambda>rest. Inr ((k, v) # rest)))"

text \<open>\<^verbatim>\<open>x || d\<close> on an optional number: the default when it is undefined or 0.\<close>

fun or_int :: "int option \<Rightarrow> int \<Rightarrow> int" where
  "or_int None d = d"
| "or_int (Some n) d = (if n = 0 then d else n)"

subsection \<open>list\_repos\<close>

definition repos_url :: "jsval \<Rightarrow> args \<Rightarrow> string" where
  "repos_url uname a =
     GITHUB_API @ ''/users/'' @ tostr uname @ ''/repos?type='' @ dflt (type_arg a) ''owner''
       @ ''&sort='' @ dflt (sort_arg a) ''updated'' @ ''&direction='' @ dflt (direction a) ''desc''
       @ ''&per_page='' @ show_int (dflt (limit a) 30)"

text \<open>The filter's callback:
  \<^verbatim>\<open>r => r.language?.toLowerCase() === args.language.toLowerCase()\<close>.\<close>

definition language_matches :: "(string \<Rightarrow> string) \<Rightarrow> string \<Rightarrow> jsval \<Rightarrow> error + bool" where
  "language_matches toLowerCase lang r =
     and_then (getp r ''language'') (\<lambda>l.
     and_then (opt_toLowerCase toLowerCase l) (\<lambda>v. Inr (v = JStr (toLowerCase lang))))"

text \<open>\<^verbatim>\<open>listRepos\<close> of the api module (part\_001, lines 165 to 197): the fetched
  repositories are returned as they came.\<close>

definition listRepos :: "(string \<Rightarrow> string) \<Rightarrow> env \<Rightarrow> args \<Rightarrow> Context \<Rightarrow> jsval io" where
  "listRepos toLowerCase e a context =
     await (getUsername e context) (\<lambda>uname.
       await (fetch (get_request (repos_url uname a) (getAuthHeaders e context))) (\<lambda>response.
         if \<not> ok response then
           throw (Error (''GitHub API error: '' @ tostr (JNum (int (status response)))))
         else
           eval_js (json response) (\<lambda>repos.
             eval_js (if truthy (sv (language a))
                      then filter_js (language_matches toLowerCase (tostr (sv (language a)))) repos
                      else Inr repos) (\<lambda>filtered.
               eval_js (slice_js filtered (dflt (limit a) 30)) (\<lambda>limited.
                 eval_js (length_js limited) (\<lambda>total.
                   return_js (JObj [(''total'', total), (''repos'', limited)])))))))"

definition repo_summary :: "jsval \<Rightarrow> error + jsval" where
  "repo_summary r =
     and_then (project r [(''name'', ''name''), (''full_name'', ''full_name''),
                          (''description'', ''description''), (''stars'', ''stargazers_count''),
                          (''forks'', ''forks_count''), (''language'', ''language''),
                          (''updated'', ''updated_at''), (''url'', ''html_url''),
                          (''private'', ''private'')]) (\<lambda>fields. Inr (JObj fields))"

text \<open>\<^verbatim>\<open>listRepos\<close> of index.js (lines 63 to 100): the slice ends at
  \<^verbatim>\<open>args.limit || 30\<close> and every repository is projected.\<close>

definition listRepos_js :: "(string \<Rightarrow> string) \<Rightarrow> env \<Rightarrow> args \<Rightarrow> Context \<Rightarrow> jsval io" where
  "listRepos_js toLowerCase e a context =
     await (getUsername_js e context) (\<lambda>uname.
       await (fetch (get_request (repos_url uname a) (authHeaders e context))) (\<lambda>response.
         if \<not> ok response then
           throw (Error (''GitHub API error: '' @ tostr (JNum (int (status response)))))
         else
           eval_js (json response) (\<lambda>repos.
             eval_js (if truthy (sv (language a))
                      then filter_js (language_matches toLowerCase (tostr (sv (language a)))) repos
                      else Inr repos) (\<lambda>filtered.
               eval_js (slice_js filtered (or_int (limit a) 30)) (\<lambda>limited.
                 eval_js (length_js limited) (\<lambda>total.
                   eval_js (map_js repo_summary limited) (\<lambda>summaries.
                     return_js (JObj [(''total'', total), (''repos'', summaries)]))))))))"

subsection \<open>get\_repo\<close>

definition repo_url :: "args \<Rightarrow> string" where
  "repo_url a = GITHUB_API @ ''/repos/'' @ tostr (sv (owner a)) @ ''/'' @ tostr (sv (repo a))"

definition repo_details :: "jsval \<Rightarrow> error + jsval" where
  "repo_details r =
     and_then (project r [(''name'', ''name''), (''full_name'', ''full_name''),
                          (''description'', ''description''), (''stars'', ''stargazers_count''),
                          (''forks'', ''forks_count''), (''watchers'', ''watchers_count''),
                          (''language'', ''language''), (''open_issues'', ''open_issues_count''),
                          (''created'', ''created_at''), (''updated'', ''updated_at''),
                          (''pushed'', ''pushed_at''), (''url'', ''html_url''),
                          (''default_branch'', ''default_branch''),
                          (''private'', ''private'')]) (\<lambda>fields. Inr (JObj fields))"

text \<open>\<^verbatim>\<open>getRepo\<close> of the api module (part\_001, lines 202 to 233).\<close>

definition getRepo :: "env \<Rightarrow> args \<Rightarrow> Context \<Rightarrow> jsval io" where
  "getRepo e a context =
     await (fetch (get_request (repo_url a) (getAuthHeaders e context))) (\<lambda>response.
       if \<not> ok response then
         throw (Error (''Repo not found: '' @ tostr (sv (owner a)) @ ''/'' @ tostr (sv (repo a))))
       else
         eval_js (json response) (\<lambda>data. eval_js (repo_details data) return_js))"

text \<open>\<^verbatim>\<open>getRepo\<close> of index.js (lines 105 to 133).\<close>

definition getRepo_js :: "env \<Rightarrow> args \<Rightarrow> Context \<Rightarrow> jsval io" where
  "getRepo_js e a context =
     await (fetch (get_request (repo_url a) (authHeaders e context))) (\<lambda>response.
       if \<not> ok response then
         throw (Error (''Repo not found: '' @ tostr (sv (owner a)) @ ''/'' @ tostr (sv (repo a))))
       else
         eval_js (json response) (\<lambda>data. eval_js (repo_details data) return_js))"

subsection \<open>check\_ci\_status\<close>

definition runs_url :: "args \<Rightarrow> string" where
  "runs_url a = GITHUB_API @ ''/repos/'' @ tostr (sv (owner a)) @ ''/'' @ tostr (sv (repo a))
       @ ''/actions/runs?per_page=5''"

text \<open>One run of the api module: \<^verbatim>\<open>commit: run.head_sha?.substring(0, 7) || ''\<close>.\<close>

definition workflow_run :: "jsval \<Rightarrow> error + jsval" where
  "workflow_run run =
     and_then (project run [(''name'', ''name''), (''status'', ''status''),
                            (''conclusion'', ''conclusion''), (''branch'', ''head_branch'')]) (\<lambda>front.
     and_then (getp run ''head_sha'') (\<lambda>sha.
     and_then (opt_substring07 sha) (\<lambda>short.
     and_then (project run [(''created'', ''created_at''), (''url'', ''html_url'')]) (\<lambda>back.
       Inr (JObj (front @ [(''commit'', or_js short (JStr []))] @ back))))))"

text \<open>One run of index.js: \<^verbatim>\<open>commit: run.head_sha?.substring(0, 7)\<close>.\<close>

definition workflow_run_js :: "jsval \<Rightarrow> error + jsval" where
  "workflow_run_js run =
     and_then (project run [(''name'', ''name''), (''status'', ''status''),
                            (''conclusion'', ''conclusion''), (''branch'', ''head_branch'')]) (\<lambda>front.
     and_then (getp run ''head_sha'') (\<lambda>sha.
     and_then (opt_substring07 sha) (\<lambda>short.
     and_then (project run [(''created'', ''created_at''), (''url'', ''html_url'')]) (\<lambda>back.
       Inr (JObj (front @ [(''commit'', short)] @ back))))))"

text \<open>\<^verbatim>\<open>checkCIStatus\<close> of the api module (part\_001, lines 238 to 268):
  \<^verbatim>\<open>(data.workflow_runs || []).map(...)\<close>.\<close>

definition checkCIStatus :: "env \<Rightarrow> args \<Rightarrow> Context \<Rightarrow> jsval io" where
  "checkCIStatus e a context =
     await (fetch (get_request (runs_url a) (getAuthHeaders e context))) (\<lambda>response.
       if \<not> ok response then
         throw (Error (''Failed to get CI status: '' @ tostr (JNum (int (status response)))))
       else
         eval_js (json response) (\<lambda>data.
           eval_js (getp data ''workflow_runs'') (\<lambda>workflow_runs.
             eval_js (map_js workflow_run (or_js workflow_runs (JArr []))) (\<lambda>runs.
               return_js (JObj [(''repo'', JStr (tostr (sv (owner a)) @ ''/'' @ tostr (sv (repo a)))),
                                (''runs'', runs)])))))"

text \<open>\<^verbatim>\<open>checkCIStatus\<close> of index.js (lines 138 to 165):
  \<^verbatim>\<open>data.workflow_runs?.map(...) || []\<close>.\<close>

definition checkCIStatus_js :: "env \<Rightarrow> args \<Rightarrow> Context \<Rightarrow> jsval io" where
  "checkCIStatus_js e a context =
     await (fetch (get_request (runs_url a) (authHeaders e context))) (\<lambda>response.
       if \<not> ok response then
         throw (Error (''Failed to get CI status: '' @ tostr (JNum (int (status response)))))
       else
         eval_js (json response) (\<lambda>data.
           eval_js (getp data ''workflow_runs'') (\<lambda>workflow_runs.
             eval_js (if nullish workflow_runs then Inr JUndefined
                      else map_js workflow_run_js workflow_runs) (\<lambda>mapped.
               return_js (JObj [(''repo'', JStr (tostr (sv (owner a)) @ ''/'' @ tostr (sv (repo a)))),
                                (''runs'', or_js mapped (JArr []))])))))"

subsection \<open>get\_recent\_activity\<close>

definition commits_url :: "jsval \<Rightarrow> args \<Rightarrow> string" where
  "commits_url uname a =
     GITHUB_API @ ''/repos/'' @ tostr uname @ ''/'' @ tostr (sv (repo a))
       @ ''/commits?per_page='' @ show_int (dflt (limit a) 10)"

text \<open>The callback of \<^verbatim>\<open>commits.map\<close>, the same text in both renderings.\<close>

definition commit_entry :: "jsval \<Rightarrow> error + jsval" where
  "commit_entry c =
     and_then (getp c ''sha'') (\<lambda>sha.
     and_then (substring07 sha) (\<lambda>short.
     and_then (getp c ''commit'') (\<lambda>commit.
     and_then (getp commit ''message'') (\<lambda>message.
     and_then (split_nl_0 message) (\<lambda>line.
     and_then (getp commit ''author'') (\<lambda>author.
     and_then (getp author ''name'') (\<lambda>author_name.
     and_then (getp author ''date'') (\<lambda>author_date.
     and_then (getp c ''html_url'') (\<lambda>html_url.
       Inr (JObj [(''sha'', short), (''message'', line), (''author'', author_name),
                  (''date'', author_date), (''url'', html_url)]))))))))))"

text \<open>\<^verbatim>\<open>getRecentActivity\<close> of the api module (part\_001, lines 273 to 304).\<close>

definition getRecentActivity :: "env \<Rightarrow> args \<Rightarrow> Context \<Rightarrow> jsval io" where
  "getRecentActivity e a context =
     await (getUsername e context) (\<lambda>uname.
       if \<not> truthy (sv (repo a)) then throw (Error ''Repository name required'')
       else
         await (fetch (get_request (commits_url uname a) (getAuthHeaders e context))) (\<lambda>commitsRes.
           if \<not> ok commitsRes then
             throw (Error (''Failed to get activity: '' @ tostr (JNum (int (status commitsRes)))))
           else
             eval_js (json commitsRes) (\<lambda>commits.
               eval_js (map_js commit_entry commits) (\<lambda>entries.
                 return_js (JObj [(''repo'', JStr (tostr uname @ ''/'' @ tostr (sv (repo a)))),
                                  (''commits'', entries)])))))"

text \<open>\<^verbatim>\<open>getRecentActivity\<close> of index.js (lines 170 to 198).\<close>

definition getRecentActivity_js :: "env \<Rightarrow> args \<Rightarrow> Context \<Rightarrow> jsval io" where
  "getRecentActivity_js e a context =
     await (getUsername_js e context) (\<lambda>uname.
       if \<not> truthy (sv (repo a)) then throw (Error ''Repository name required'')
       else
         await (fetch (get_request (commits_url uname a) (authHeaders e context))) (\<lambda>commitsRes.
           if \<not> ok commitsRes then
             throw (Error (''Failed to get activity: '' @ tostr (JNum (int (status commitsRes)))))
           else
             eval_js (json commitsRes) (\<lambda>commits.
               eval_js (map_js commit_entry commits) (\<lambda>entries.
                 return_js (JObj [(''repo'', JStr (tostr uname @ ''/'' @ tostr (sv (repo a)))),
                                  (''commits'', entries)])))))"

subsection \<open>create\_repo\<close>

fun bv :: "bool option \<Rightarrow> bool \<Rightarrow> jsval" where
  "bv None d = JBool d"
| "bv (Some b) d = JBool b"

definition repo_body :: "args \<Rightarrow> jsval" where
  "repo_body a =
     JObj [(''name'', sv (name a)), (''description'', or_js (sv (description a)) (JStr [])),
           (''private'', bv (private_arg a) False), (''auto_init'', bv (auto_init a) True)]"

text \<open>The result of the api module: absent counts, language and date are defaulted.\<close>

definition created_repo :: "jsval \<Rightarrow> error + jsval" where
  "created_repo r =
     and_then (project r [(''name'', ''name''), (''full_name'', ''full_name''),
                          (''description'', ''description'')]) (\<lambda>front.
     and_then (getp r ''stargazers_count'') (\<lambda>stars.
     and_then (getp r ''forks_count'') (\<lambda>forks.
     and_then (getp r ''language'') (\<lambda>lang.
     and_then (getp r ''updated_at'') (\<lambda>updated.
     and_then (project r [(''url'', ''html_url''), (''private'', ''private'')]) (\<lambda>back.
       Inr (JObj (front @ [(''stars'', or_js stars (JNum 0)), (''forks'', or_js forks (JNum 0)),
                           (''language'', or_js lang JNull), (''updated'', or_js updated (JStr []))]
                        @ back))))))))"

text \<open>The result of index.js.\<close>

definition created_repo_js :: "jsval \<Rightarrow> error + jsval" where
  "created_repo_js r =
     and_then (project r [(''name'', ''name''), (''full_name'', ''full_name''),
                          (''description'', ''description''), (''url'', ''html_url''),
                          (''private'', ''private''), (''clone_url'', ''clone_url'')])
       (\<lambda>fields. Inr (JObj fields))"

text \<open>\<^verbatim>\<open>createRepo\<close> of the api module (part\_001, lines 350 to 392).\<close>

definition createRepo :: "env \<Rightarrow> args \<Rightarrow> Context \<Rightarrow> jsval io" where
  "createRepo e a context =
     await (getUsername e context) (\<lambda>uname.
       if \<not> truthy (sv (name a)) then throw (Error ''Repository name required'')
       else
         await (fetch (post_request (GITHUB_API @ ''/user/repos'') (getAuthHeaders e context)
                         (repo_body a))) (\<lambda>response.
           if \<not> ok response then
             eval_js (json response) (\<lambda>err.
               eval_js (getp err ''message'') (\<lambda>m.
                 throw (Error (''Failed to create repo: '' @ tostr (or_js m (JNum (int (status response))))))))
           else
             eval_js (json response) (\<lambda>r. eval_js (created_repo r) return_js)))"

text \<open>\<^verbatim>\<open>createRepo\<close> of index.js (lines 240 to 276).\<close>

definition createRepo_js :: "env \<Rightarrow> args \<Rightarrow> Context \<Rightarrow> jsval io" where
  "createRepo_js e a context =
     await (getUsername_js e context) (\<lambda>uname.
       if \<not> truthy (sv (name a)) then throw (Error ''Repository name required'')
       else
         await (fetch (post_request (GITHUB_API @ ''/user/repos'') (authHeaders e context)
                         (repo_body a))) (\<lambda>response.
           if \<not> ok response then
             eval_js (json response) (\<lambda>err.
               eval_js (getp err ''message'') (\<lambda>m.
                 throw (Error (''Failed to create repo: '' @ tostr (or_js m (JNum (int (status response))))))))
           else
             eval_js (json response) (\<lambda>r. eval_js (created_repo_js r) return_js)))"

subsection \<open>search\_repos\<close>

definition search_url :: "jsval \<Rightarrow> args \<Rightarrow> string" where
  "search_url uname a =
     GITHUB_API @ ''/search/repositories?q='' @ encodeURIComponent (tostr (sv (query a)))
       @ ''+user:'' @ tostr uname @ ''&sort='' @ dflt (sort_arg a) ''updated''
       @ ''&per_page='' @ show_int (dflt (limit a) 30)"

text \<open>One hit of the api module: six fields of the item and three constants.\<close>

definition search_hit :: "jsval \<Rightarrow> error + jsval" where
  "search_hit r =
     and_then (project r [(''name'', ''name''), (''full_name'', ''full_name''),
                          (''description'', ''description''), (''stars'', ''stargazers_count''),
                          (''language'', ''language''), (''url'', ''html_url'')]) (\<lambda>fields.
       Inr (JObj (fields @ [(''forks'', JNum 0), (''updated'', JStr []), (''private'', JBool False)])))"

text \<open>One hit of index.js.\<close>

definition search_hit_js :: "jsval \<Rightarrow> error + jsval" where
  "search_hit_js r =
     and_then (project r [(''name'', ''name''), (''full_name'', ''full_name''),
                          (''description'', ''description''), (''stars'', ''stargazers_count''),
                          (''language'', ''language''), (''url'', ''html_url'')]) (\<lambda>fields.
       Inr (JObj fields))"

text \<open>\<^verbatim>\<open>searchRepos\<close> of the api module (part\_001, lines 397 to 433):
  \<^verbatim>\<open>(data.items || []).map(...)\<close>, with no slice.\<close>

definition searchRepos :: "env \<Rightarrow> args \<Rightarrow> Context \<Rightarrow> jsval io" where
  "searchRepos e a context =
     await (getUsername e context) (\<lambda>uname.
       if \<not> truthy (sv (query a)) then throw (Error ''Search query required'')
       else
         await (fetch (get_request (search_url uname a) (getAuthHeaders e context))) (\<lambda>response.
           if \<not> ok response then
             throw (Error (''Search failed: '' @ tostr (JNum (int (status response)))))
           else
             eval_js (json response) (\<lambda>data.
               eval_js (getp data ''total_count'') (\<lambda>total_count.
                 eval_js (getp data ''items'') (\<lambda>items.
                   eval_js (map_js search_hit (or_js items (JArr []))) (\<lambda>repos.
                     return_js (JObj [(''total'', total_count), (''repos'', repos)])))))))"

text \<open>\<^verbatim>\<open>searchRepos\<close> of index.js (lines 281 to 311):
  \<^verbatim>\<open>data.items?.map(...) || []\<close>.\<close>

definition searchRepos_js :: "env \<Rightarrow> args \<Rightarrow> Context \<Rightarrow> jsval io" where
  "searchRepos_js e a context =
     await (getUsername_js e context) (\<lambda>uname.
       if \<not> truthy (sv (query a)) then throw (Error ''Search query required'')
       else
         await (fetch (get_request (search_url uname a) (authHeaders e context))) (\<lambda>response.
           if \<not> ok response then
             throw (Error (''Search failed: '' @ tostr (JNum (int (status response)))))
           else
             eval_js (json response) (\<lambda>data.
               eval_js (getp data ''total_count'') (\<lambda>total_count.
                 eval_js (getp data ''items'') (\<lambda>items.
                   eval_js (if nullish items then Inr JUndefined
                            else map_js search_hit_js items) (\<lambda>mapped.
                     return_js (JObj [(''total'', total_count),
                                      (''repos'', or_js mapped (JArr []))])))))))"

subsection \<open>create\_pull\_request\<close>

definition pulls_url :: "jsval \<Rightarrow> args \<Rightarrow> string" where
  "pulls_url prOwner a = GITHUB_API @ ''/repos/'' @ tostr prOwner @ ''/'' @ tostr (sv (repo a)) @ ''/pulls''"

definition pr_body :: "args \<Rightarrow> jsval" where
  "pr_body a =
     JObj [(''title'', sv (title a)), (''body'', or_js (sv (body a)) (JStr [])),
           (''head'', sv (head a)), (''base'', JStr (dflt (base a) ''main''))]"

definition pr_result :: "jsval \<Rightarrow> error + jsval" where
  "pr_result pr =
     and_then (project pr [(''number'', ''number''), (''title'', ''title''),
                           (''url'', ''html_url''), (''state'', ''state'')]) (\<lambda>front.
     and_then (getp pr ''head'') (\<lambda>h.
     and_then (getp h ''ref'') (\<lambda>head_ref.
     and_then (getp pr ''base'') (\<lambda>b.
     and_then (getp b ''ref'') (\<lambda>base_ref.
       Inr (JObj (front @ [(''head'', head_ref), (''base'', base_ref)])))))))"

text \<open>\<^verbatim>\<open>createPullRequest\<close> of the api module (part\_001, lines 438 to 480):
  \<^verbatim>\<open>const prOwner = owner || username\<close>.\<close>

definition createPullRequest :: "env \<Rightarrow> args \<Rightarrow> Context \<Rightarrow> jsval io" where
  "createPullRequest e a context =
     await (getUsername e context) (\<lambda>uname.
       let prOwner = or_js (sv (owner a)) uname in
       if \<not> truthy prOwner \<or> \<not> truthy (sv (repo a)) \<or> \<not> truthy (sv (title a)) \<or> \<not> truthy (sv (head a))
       then throw (Error ''owner, repo, title, and head are required'')
       else
         await (fetch (post_request (pulls_url prOwner a) (getAuthHeaders e context) (pr_body a))) (\<lambda>response.
           if \<not> ok response then
             eval_js (json response) (\<lambda>err.
               eval_js (getp err ''message'') (\<lambda>m.
                 throw (Error (''Failed to create PR: '' @ tostr (or_js m (JNum (int (status response))))))))
           else
             eval_js (json response) (\<lambda>pr. eval_js (pr_result pr) return_js)))"

text \<open>\<^verbatim>\<open>createPullRequest\<close> of index.js (lines 316 to 352): the owner is required.\<close>

definition createPullRequest_js :: "env \<Rightarrow> args \<Rightarrow> Context \<Rightarrow> jsval io" where
  "createPullRequest_js e a context =
     await (getUsername_js e context) (\<lambda>uname.
       if \<not> truthy (sv (owner a)) \<or> \<not> truthy (sv (repo a)) \<or> \<not> truthy (sv (title a)) \<or> \<not> truthy (sv (head a))
       then throw (Error ''owner, repo, title, and head are required'')
       else
         await (fetch (post_request (pulls_url (sv (owner a)) a) (authHeaders e context) (pr_body a))) (\<lambda>response.
           if \<not> ok response then
             eval_js (json response) (\<lambda>err.
               eval_js (getp err ''message'') (\<lambda>m.
                 throw (Error (''Failed to create PR: '' @ tostr (or_js m (JNum (int (status response))))))))
           else
             eval_js (json response) (\<lambda>pr. eval_js (pr_result pr) return_js)))"

section \<open>Concrete inputs\<close>

text \<open>The empty parameter object, an empty environment, a context without configuration
  and a freshly loaded module with nothing to answer its requests.\<close>

definition no_args :: args where
  "no_args = \<lparr>owner = None, repo = None, title = None, body = None, head = None, base = None,
     type_arg = None, sort_arg = None, direction = None, language = None, limit = None,
     query = None, name = None, description = None, private_arg = None, auto_init = None,
     extra = None\<rparr>"

definition no_env :: env where
  "no_env = \<lparr>GITHUB_TOKEN = None, GITHUB_USERNAME = None\<rparr>"

definition no_context :: Context where
  "no_context = \<lparr>config = None\<rparr>"

definition context_of :: "string option \<Rightarrow> string option \<Rightarrow> Context" where
  "context_of t u = \<lparr>config = Some \<lparr>github = Some \<lparr>token = t, username = u\<rparr>\<rparr>\<rparr>"

text \<open>An environment that names the acting user, and a parameter object with every
  string field of the write actions given.\<close>

definition octo_env :: env where
  "octo_env = \<lparr>GITHUB_TOKEN = None, GITHUB_USERNAME = Some ''octo''\<rparr>"

definition demo_args :: args where
  "demo_args = no_args\<lparr>owner := Some ''acme'', repo := Some ''widget'', title := Some ''Fix it'',
     head := Some ''dev'', query := Some ''tool'', name := Some ''demo''\<rparr>"

text \<open>What the engine's \<^verbatim>\<open>toLowerCase\<close> computes on strings of ASCII characters, for
  the concrete runs below.\<close>

definition lower_char :: "char \<Rightarrow> char" where
  "lower_char c = (let n = (of_char c :: nat) in if 65 \<le> n \<and> n \<le> 90 then char_of (n + 32) else c)"

definition ascii_lower :: "string \<Rightarrow> string" where
  "ascii_lower s = map lower_char s"

definition fresh :: "outcome list \<Rightarrow> world" where
  "fresh answers = \<lparr>cachedUser = JNull, upstream = answers, log = []\<rparr>"

definition answer :: "nat \<Rightarrow> jsval \<Rightarrow> outcome" where
  "answer st v = Responds \<lparr>status = st, content = Some v\<rparr>"

text \<open>\<open>n\<close> calls of \<^verbatim>\<open>getUsername\<close> one after the other in one process, one context
  per call.\<close>

fun getUsername_calls :: "env \<Rightarrow> Context list \<Rightarrow> world \<Rightarrow> (error + jsval) list \<times> world" where
  "getUsername_calls e [] w = ([], w)"
| "getUsername_calls e (c # cs) w =
     (case getUsername e c w of (r, w1) \<Rightarrow>
        (case getUsername_calls e cs w1 of (rs, w2) \<Rightarrow> (r # rs, w2)))"

section \<open>Notions used to state the properties\<close>

text \<open>The world after one more request was sent and answered.\<close>

definition sent :: "request \<Rightarrow> outcome list \<Rightarrow> world \<Rightarrow> world" where
  "sent rq rest w = w\<lparr>upstream := rest, log := log w @ [rq]\<rparr>"

text \<open>What the three adapters that read the error body raise: the body's
  \<^verbatim>\<open>message\<close> when it is truthy, else the status; the exception of the parser or of the
  property access when the body is not JSON or is null.\<close>

definition upstream_error :: "string \<Rightarrow> response \<Rightarrow> error" where
  "upstream_error prefix r =
     (case content r of
        None \<Rightarrow> SyntaxError
      | Some b \<Rightarrow> (case getp b ''message'' of
           Inl err \<Rightarrow> err
         | Inr m \<Rightarrow> Error (prefix @ tostr (or_js m (JNum (int (status r)))))))"

text \<open>A repository whose \<^verbatim>\<open>language\<close> is a string that the engine's \<open>toLowerCase\<close>
  maps to the same string as the filter; a null, absent or non-string language does not
  match.\<close>

definition has_language :: "(string \<Rightarrow> string) \<Rightarrow> string \<Rightarrow> jsval \<Rightarrow> bool" where
  "has_language toLowerCase lang r =
     (case getp r ''language'' of
        Inr (JStr l) \<Rightarrow> toLowerCase l = toLowerCase lang
      | _ \<Rightarrow> False)"

section \<open>Properties of the credential resolver\<close>

lemma authHeaders_eq: "authHeaders e c = getAuthHeaders e c"
  by (simp add: authHeaders_def getAuthHeaders_def)

lemma getUsername_js_eq: "getUsername_js e c = getUsername e c"
  unfolding getUsername_js_def getUsername_def authHeaders_eq by (rule refl)

lemma getUsername_env:
  assumes "GITHUB_USERNAME e = Some u" and "u \<noteq> []"
  shows "getUsername e c w = (Inr (JStr u), w)"
  using assms by (simp add: getUsername_def return_js_def)

lemma getUsername_config:
  assumes "\<not> truthy (sv (GITHUB_USERNAME e))" and "username (github_of c) = Some u" and "u \<noteq> []"
  shows "getUsername e c w = (Inr (JStr u), w)"
  using assms by (simp add: getUsername_def return_js_def)

lemma getUsername_cached:
  assumes "\<not> truthy (sv (GITHUB_USERNAME e))" and "\<not> truthy (sv (username (github_of c)))"
    and "truthy (cachedUser w)"
  shows "getUsername e c w = (Inr (cachedUser w), w)"
  using assms by (simp add: getUsername_def)

lemma getUsername_local:
  assumes "truthy (sv (GITHUB_USERNAME e)) \<or> truthy (sv (username (github_of c))) \<or> truthy (cachedUser w)"
  shows "\<exists>u. getUsername e c w = (Inr u, w)"
  using assms by (auto simp add: getUsername_def return_js_def)

text \<open>The lookup, when the network answers it with a body that parses and is not null.\<close>

lemma getUsername_lookup:
  assumes "\<not> truthy (sv (GITHUB_USERNAME e))" and "\<not> truthy (sv (username (github_of c)))"
    and "\<not> truthy (cachedUser w)"
    and "upstream w = Responds r # rest" and "content r = Some d" and "getp d ''login'' = Inr l"
  shows "getUsername e c w =
    (Inr l, w\<lparr>upstream := rest, log := log w @ [get_request (GITHUB_API @ ''/user'') (getAuthHeaders e c)],
               cachedUser := l\<rparr>)"
  using assms
  by (simp add: getUsername_def await_def fetch_def eval_js_def json_def)

text \<open>Whatever happens, \<^verbatim>\<open>getUsername\<close> issues nothing or the one lookup.\<close>

lemma getUsername_log:
  "log (snd (getUsername e c w)) = log w \<or>
   log (snd (getUsername e c w)) = log w @ [get_request (GITHUB_API @ ''/user'') (getAuthHeaders e c)]"
  by (simp add: getUsername_def return_js_def await_def fetch_def eval_js_def throw_def
      split: list.split outcome.split sum.split)

section \<open>Properties of create\_issue\<close>

lemma createIssue_no_title:
  assumes "\<not> truthy (sv (title a))"
  shows "createIssue e a c w =
    (case getUsername e c w of
       (Inl err, w') \<Rightarrow> (Inl err, w')
     | (Inr u, w') \<Rightarrow> (Inl (Error ''Issue title required''), w'))"
  using assms by (simp add: createIssue_def await_def throw_def)

lemma createIssue_js_no_title:
  assumes "\<not> truthy (sv (title a))"
  shows "createIssue_js e a c w =
    (case getUsername e c w of
       (Inl err, w') \<Rightarrow> (Inl err, w')
     | (Inr u, w') \<Rightarrow> (Inl (Error ''Issue title required''), w'))"
  using assms by (simp add: createIssue_js_def getUsername_js_eq await_def throw_def)

lemma getUsername_calls_cached:
  assumes "\<not> truthy (sv (GITHUB_USERNAME e))"
    and "\<forall>c \<in> set cs. \<not> truthy (sv (username (github_of c)))"
    and "truthy (cachedUser w)"
  shows "getUsername_calls e cs w = (replicate (length cs) (Inr (cachedUser w)), w)"
  using assms by (induction cs) (simp_all add: getUsername_cached)

section \<open>The claims about credentials and validation\<close>

text \<open>
  C1 (as amended). For every invocation of create\_issue whose title is absent or empty, in
  both renderings: the action raises an error and never issues the issue-creation POST;
  the only request it can issue is the one username lookup (GET /user) that
  \<^verbatim>\<open>getUsername\<close> makes before the title is checked. Whenever the username is resolved,
  the error is \<^verbatim>\<open>Issue title required\<close>, and when the environment, the configuration
  or the cache supplies the username no request is issued at all.
\<close>

theorem createIssue_missing_title:
  assumes "\<not> truthy (sv (title a))"
  shows "(\<exists>err. fst (createIssue e a c w) = Inl err) \<and>
    (log (snd (createIssue e a c w)) = log w \<or>
     log (snd (createIssue e a c w)) =
       log w @ [get_request (GITHUB_API @ ''/user'') (getAuthHeaders e c)]) \<and>
    (\<forall>u w'. getUsername e c w = (Inr u, w') \<longrightarrow>
       createIssue e a c w = (Inl (Error ''Issue title required''), w')) \<and>
    (truthy (sv (GITHUB_USERNAME e)) \<or> truthy (sv (username (github_of c))) \<or> truthy (cachedUser w) \<longrightarrow>
       createIssue e a c w = (Inl (Error ''Issue title required''), w)) \<and>
    createIssue_js e a c w = createIssue e a c w"
proof -
  note eq = createIssue_no_title [OF assms, of e c w]
  have raised: "\<exists>err. fst (createIssue e a c w) = Inl err"
    unfolding eq by (simp split: prod.split sum.split)
  have same_world: "snd (createIssue e a c w) = snd (getUsername e c w)"
    unfolding eq by (simp split: prod.split sum.split)
  have requests: "log (snd (createIssue e a c w)) = log w \<or>
     log (snd (createIssue e a c w)) =
       log w @ [get_request (GITHUB_API @ ''/user'') (getAuthHeaders e c)]"
    unfolding same_world by (rule getUsername_log)
  have resolved: "\<forall>u w'. getUsername e c w = (Inr u, w') \<longrightarrow>
       createIssue e a c w = (Inl (Error ''Issue title required''), w')"
    unfolding eq by simp
  have local: "truthy (sv (GITHUB_USERNAME e)) \<or> truthy (sv (username (github_of c))) \<or> truthy (cachedUser w) \<longrightarrow>
       createIssue e a c w = (Inl (Error ''Issue title required''), w)"
  proof
    assume "truthy (sv (GITHUB_USERNAME e)) \<or> truthy (sv (username (github_of c))) \<or> truthy (cachedUser w)"
    then obtain u where "getUsername e c w = (Inr u, w)"
      using getUsername_local by blast
    with resolved show "createIssue e a c w = (Inl (Error ''Issue title required''), w)"
      by blast
  qed
  have js: "createIssue_js e a c w = createIssue e a c w"
    unfolding eq createIssue_js_no_title [OF assms] by (rule refl)
  from raised requests resolved local js show ?thesis by blast
qed

theorem createIssue_missing_title_witness:
  "\<not> truthy (sv (title no_args)) \<and>
   createIssue \<lparr>GITHUB_TOKEN = None, GITHUB_USERNAME = Some ''octo''\<rparr> no_args no_context (fresh []) =
     (Inl (Error ''Issue title required''), fresh []) \<and>
   createIssue_js \<lparr>GITHUB_TOKEN = None, GITHUB_USERNAME = Some ''octo''\<rparr> no_args no_context (fresh []) =
     (Inl (Error ''Issue title required''), fresh [])"
  using createIssue_missing_title
    [of no_args "\<lparr>GITHUB_TOKEN = None, GITHUB_USERNAME = Some ''octo''\<rparr>" no_context "fresh []"]
  by (simp add: no_args_def)

text \<open>
  C1 as stated fails: with no title, no username in the environment or the configuration
  and an empty cache, the username lookup is sent to the network before the error is
  raised.
\<close>

theorem createIssue_lookup_before_validation:
  "createIssue no_env no_args no_context (fresh [answer 200 (JObj [(''login'', JStr ''octo'')])]) =
     (Inl (Error ''Issue title required''),
      \<lparr>cachedUser = JStr ''octo'', upstream = [],
       log = [\<lparr>req_method = ''GET'', req_url = ''https://api.github.com/user'',
               req_headers = [(''Accept'', ''application/vnd.github.v3+json''),
                              (''User-Agent'', ''OpenClaw-GitHub-Skill'')],
               req_body = None\<rparr>]\<rparr>)"
  by (simp add: createIssue_def getUsername_def getAuthHeaders_def github_of_def base_headers_def
      no_env_def no_args_def no_context_def fresh_def answer_def await_def fetch_def eval_js_def
      json_def throw_def get_request_def GITHUB_API_def)

text \<open>
  C2. When the environment supplies GITHUB\_TOKEN (GITHUB\_USERNAME), the Authorization
  header (the acting username) is the environment's value whatever the context holds;
  when the environment does not supply it and the configuration does, the
  configuration's value is used. Resolving the username from either source issues no
  request and leaves the cache as it was.
\<close>

theorem credential_precedence:
  "(GITHUB_TOKEN e = Some t \<and> t \<noteq> [] \<longrightarrow>
      getAuthHeaders e c = base_headers @ [(''Authorization'', ''token '' @ t)]) \<and>
   (\<not> truthy (sv (GITHUB_TOKEN e)) \<and> config c = Some cf \<and> github cf = Some g \<and>
      token g = Some t' \<and> t' \<noteq> [] \<longrightarrow>
      getAuthHeaders e c = base_headers @ [(''Authorization'', ''token '' @ t')]) \<and>
   (GITHUB_USERNAME e = Some u \<and> u \<noteq> [] \<longrightarrow> getUsername e c w = (Inr (JStr u), w)) \<and>
   (\<not> truthy (sv (GITHUB_USERNAME e)) \<and> config c = Some cf \<and> github cf = Some g \<and>
      username g = Some u' \<and> u' \<noteq> [] \<longrightarrow> getUsername e c w = (Inr (JStr u'), w))"
  by (auto simp add: getAuthHeaders_def github_of_def getUsername_env getUsername_config)

theorem credential_precedence_witness:
  "getAuthHeaders \<lparr>GITHUB_TOKEN = Some ''envtok'', GITHUB_USERNAME = Some ''envuser''\<rparr>
     (context_of (Some ''cfgtok'') (Some ''cfguser'')) =
     base_headers @ [(''Authorization'', ''token envtok'')] \<and>
   getAuthHeaders no_env (context_of (Some ''cfgtok'') (Some ''cfguser'')) =
     base_headers @ [(''Authorization'', ''token cfgtok'')] \<and>
   getUsername \<lparr>GITHUB_TOKEN = Some ''envtok'', GITHUB_USERNAME = Some ''envuser''\<rparr>
     (context_of (Some ''cfgtok'') (Some ''cfguser'')) (fresh []) = (Inr (JStr ''envuser''), fresh []) \<and>
   getUsername no_env (context_of (Some ''cfgtok'') (Some ''cfguser'')) (fresh []) =
     (Inr (JStr ''cfguser''), fresh [])"
  using credential_precedence
    [of "\<lparr>GITHUB_TOKEN = Some ''envtok'', GITHUB_USERNAME = Some ''envuser''\<rparr>" "''envtok''"
        "context_of (Some ''cfgtok'') (Some ''cfguser'')" _ _ _ "''envuser''" "fresh []"]
    credential_precedence
    [of no_env _ "context_of (Some ''cfgtok'') (Some ''cfguser'')"
        "\<lparr>github = Some \<lparr>token = Some ''cfgtok'', username = Some ''cfguser''\<rparr>\<rparr>"
        "\<lparr>token = Some ''cfgtok'', username = Some ''cfguser''\<rparr>" "''cfgtok''" _ "fresh []" "''cfguser''"]
  by (simp add: no_env_def context_of_def)

text \<open>
  C3 (as amended). When neither the environment nor the configuration supplies a
  username, the cache is empty and the first lookup is answered with a body whose
  \<^verbatim>\<open>login\<close> is truthy, any number of sequential calls issue that one lookup only, and
  every call returns that login. A username supplied by the environment or the
  configuration is returned without touching the cache.
\<close>

theorem getUsername_one_lookup:
  assumes "\<not> truthy (sv (GITHUB_USERNAME e))"
    and "\<forall>c \<in> set (c0 # cs). \<not> truthy (sv (username (github_of c)))"
    and "\<not> truthy (cachedUser w)"
    and "upstream w = Responds r # rest" and "content r = Some d"
    and "getp d ''login'' = Inr l" and "truthy l"
  shows "getUsername_calls e (c0 # cs) w =
      (replicate (Suc (length cs)) (Inr l),
       w\<lparr>upstream := rest,
         log := log w @ [get_request (GITHUB_API @ ''/user'') (getAuthHeaders e c0)],
         cachedUser := l\<rparr>) \<and>
    ((GITHUB_USERNAME e' = Some u \<and> u \<noteq> []) \<or>
     (\<not> truthy (sv (GITHUB_USERNAME e')) \<and> username (github_of c') = Some u \<and> u \<noteq> []) \<longrightarrow>
       getUsername e' c' w' = (Inr (JStr u), w'))"
proof -
  let ?w1 = "w\<lparr>upstream := rest,
         log := log w @ [get_request (GITHUB_API @ ''/user'') (getAuthHeaders e c0)],
         cachedUser := l\<rparr>"
  have first: "getUsername e c0 w = (Inr l, ?w1)"
    using assms by (simp add: getUsername_lookup)
  have later: "getUsername_calls e cs ?w1 = (replicate (length cs) (Inr (cachedUser ?w1)), ?w1)"
    using assms by (intro getUsername_calls_cached) simp_all
  have calls: "getUsername_calls e (c0 # cs) w = (replicate (Suc (length cs)) (Inr l), ?w1)"
    using first later by simp
  have direct: "(GITHUB_USERNAME e' = Some u \<and> u \<noteq> []) \<or>
     (\<not> truthy (sv (GITHUB_USERNAME e')) \<and> username (github_of c') = Some u \<and> u \<noteq> []) \<longrightarrow>
       getUsername e' c' w' = (Inr (JStr u), w')"
    by (auto simp add: getUsername_env getUsername_config)
  from calls direct show ?thesis by blast
qed

theorem getUsername_one_lookup_witness:
  "getUsername_calls no_env [no_context, no_context, no_context]
     (fresh [answer 200 (JObj [(''login'', JStr ''octo'')])]) =
     ([Inr (JStr ''octo''), Inr (JStr ''octo''), Inr (JStr ''octo'')],
      \<lparr>cachedUser = JStr ''octo'', upstream = [],
       log = [get_request (GITHUB_API @ ''/user'') (getAuthHeaders no_env no_context)]\<rparr>) \<and>
   getUsername \<lparr>GITHUB_TOKEN = None, GITHUB_USERNAME = Some ''envuser''\<rparr> no_context (fresh []) =
     (Inr (JStr ''envuser''), fresh [])"
  using getUsername_one_lookup
    [of no_env no_context "[no_context, no_context]"
        "fresh [answer 200 (JObj [(''login'', JStr ''octo'')])]"
        "\<lparr>status = 200, content = Some (JObj [(''login'', JStr ''octo'')])\<rparr>" "[]"
        "JObj [(''login'', JStr ''octo'')]" "JStr ''octo''"
        "\<lparr>GITHUB_TOKEN = None, GITHUB_USERNAME = Some ''envuser''\<rparr>" "''envuser''" no_context "fresh []"]
  by (simp add: no_env_def no_context_def github_of_def fresh_def answer_def)

text \<open>
  C3 as stated fails: a lookup answered without a login (here the 401 of an
  unauthenticated call) caches nothing, and the next call looks up again.
\<close>

theorem getUsername_lookup_repeated:
  "log (snd (getUsername_calls no_env [no_context, no_context]
     (fresh [answer 401 (JObj [(''message'', JStr ''Requires authentication'')]),
             answer 401 (JObj [(''message'', JStr ''Requires authentication'')])]))) =
     [get_request (GITHUB_API @ ''/user'') base_headers,
      get_request (GITHUB_API @ ''/user'') base_headers]"
  by (simp add: getUsername_def getAuthHeaders_def github_of_def
      no_env_def no_context_def fresh_def answer_def await_def fetch_def eval_js_def json_def)

section \<open>Maps and filters that may throw\<close>

lemma mapE_length: "mapE f xs = Inr ys \<Longrightarrow> length ys = length xs"
  by (induction xs arbitrary: ys) (auto split: sum.splits)

lemma mapE_nth: "mapE f xs = Inr ys \<Longrightarrow> i < length xs \<Longrightarrow> f (xs ! i) = Inr (ys ! i)"
proof (induction xs arbitrary: ys i)
  case Nil
  then show ?case by simp
next
  case (Cons x xs)
  then show ?case by (cases i) (auto split: sum.splits)
qed

lemma mapE_set: "mapE f xs = Inr ys \<Longrightarrow> y \<in> set ys \<Longrightarrow> \<exists>x \<in> set xs. f x = Inr y"
  by (induction xs arbitrary: ys) (auto split: sum.splits)

lemma filterE_filter: "filterE p xs = Inr ys \<Longrightarrow> ys = filter (\<lambda>x. p x = Inr True) xs"
  by (induction xs arbitrary: ys) (auto split: sum.splits)

lemma map_js_Inr: "map_js f v = Inr out \<Longrightarrow> \<exists>xs ys. v = JArr xs \<and> out = JArr ys \<and> mapE f xs = Inr ys"
  by (cases v) (auto split: sum.splits)

lemma filter_js_Inr:
  "filter_js p v = Inr out \<Longrightarrow> \<exists>xs. v = JArr xs \<and> out = JArr (filter (\<lambda>x. p x = Inr True) xs)"
  by (cases v) (auto split: sum.splits dest: filterE_filter)

lemma slice0_length: "0 \<le> n \<Longrightarrow> int (length (slice0 n xs)) \<le> n"
  by (simp add: slice0_def)

lemma slice0_take: "0 \<le> n \<Longrightarrow> slice0 n xs = take (nat n) xs"
  by (simp add: slice0_def)

section \<open>The action's own request answered with a failure status\<close>

lemmas run_defs = await_def fetch_def eval_js_def throw_def return_js_def json_def

lemma listRepos_not_ok:
  assumes "getUsername e c w = (Inr u, w1)" and "upstream w1 = Responds r # rest" and "\<not> ok r"
  shows "listRepos lc e a c w =
    (Inl (Error (''GitHub API error: '' @ show_int (int (status r)))),
     sent (get_request (repos_url u a) (getAuthHeaders e c)) rest w1)"
  using assms by (simp add: listRepos_def run_defs sent_def)

lemma listRepos_js_not_ok:
  assumes "getUsername e c w = (Inr u, w1)" and "upstream w1 = Responds r # rest" and "\<not> ok r"
  shows "listRepos_js lc e a c w =
    (Inl (Error (''GitHub API error: '' @ show_int (int (status r)))),
     sent (get_request (repos_url u a) (getAuthHeaders e c)) rest w1)"
  using assms by (simp add: listRepos_js_def getUsername_js_eq authHeaders_eq run_defs sent_def)

lemma getRepo_not_ok:
  assumes "upstream w1 = Responds r # rest" and "\<not> ok r"
  shows "getRepo e a c w1 =
    (Inl (Error (''Repo not found: '' @ tostr (sv (owner a)) @ ''/'' @ tostr (sv (repo a)))),
     sent (get_request (repo_url a) (getAuthHeaders e c)) rest w1)"
  using assms by (simp add: getRepo_def run_defs sent_def)

lemma getRepo_js_not_ok:
  assumes "upstream w1 = Responds r # rest" and "\<not> ok r"
  shows "getRepo_js e a c w1 =
    (Inl (Error (''Repo not found: '' @ tostr (sv (owner a)) @ ''/'' @ tostr (sv (repo a)))),
     sent (get_request (repo_url a) (getAuthHeaders e c)) rest w1)"
  using assms by (simp add: getRepo_js_def authHeaders_eq run_defs sent_def)

lemma checkCIStatus_not_ok:
  assumes "upstream w1 = Responds r # rest" and "\<not> ok r"
  shows "checkCIStatus e a c w1 =
    (Inl (Error (''Failed to get CI status: '' @ show_int (int (status r)))),
     sent (get_request (runs_url a) (getAuthHeaders e c)) rest w1)"
  using assms by (simp add: checkCIStatus_def run_defs sent_def)

lemma checkCIStatus_js_not_ok:
  assumes "upstream w1 = Responds r # rest" and "\<not> ok r"
  shows "checkCIStatus_js e a c w1 =
    (Inl (Error (''Failed to get CI status: '' @ show_int (int (status r)))),
     sent (get_request (runs_url a) (getAuthHeaders e c)) rest w1)"
  using assms by (simp add: checkCIStatus_js_def authHeaders_eq run_defs sent_def)

lemma getRecentActivity_not_ok:
  assumes "getUsername e c w = (Inr u, w1)" and "upstream w1 = Responds r # rest" and "\<not> ok r"
    and "truthy (sv (repo a))"
  shows "getRecentActivity e a c w =
    (Inl (Error (''Failed to get activity: '' @ show_int (int (status r)))),
     sent (get_request (commits_url u a) (getAuthHeaders e c)) rest w1)"
  using assms by (simp add: getRecentActivity_def run_defs sent_def)

lemma getRecentActivity_js_not_ok:
  assumes "getUsername e c w = (Inr u, w1)" and "upstream w1 = Responds r # rest" and "\<not> ok r"
    and "truthy (sv (repo a))"
  shows "getRecentActivity_js e a c w =
    (Inl (Error (''Failed to get activity: '' @ show_int (int (status r)))),
     sent (get_request (commits_url u a) (getAuthHeaders e c)) rest w1)"
  using assms by (simp add: getRecentActivity_js_def getUsername_js_eq authHeaders_eq run_defs sent_def)

lemma searchRepos_not_ok:
  assumes "getUsername e c w = (Inr u, w1)" and "upstream w1 = Responds r # rest" and "\<not> ok r"
    and "truthy (sv (query a))"
  shows "searchRepos e a c w =
    (Inl (Error (''Search failed: '' @ show_int (int (status r)))),
     sent (get_request (search_url u a) (getAuthHeaders e c)) rest w1)"
  using assms by (simp add: searchRepos_def run_defs sent_def)

lemma searchRepos_js_not_ok:
  assumes "getUsername e c w = (Inr u, w1)" and "upstream w1 = Responds r # rest" and "\<not> ok r"
    and "truthy (sv (query a))"
  shows "searchRepos_js e a c w =
    (Inl (Error (''Search failed: '' @ show_int (int (status r)))),
     sent (get_request (search_url u a) (getAuthHeaders e c)) rest w1)"
  using assms by (simp add: searchRepos_js_def getUsername_js_eq authHeaders_eq run_defs sent_def)

lemma createIssue_js_not_ok:
  assumes "getUsername e c w = (Inr u, w1)" and "upstream w1 = Responds r # rest" and "\<not> ok r"
    and "truthy (sv (title a))"
  shows "createIssue_js e a c w =
    (Inl (Error (''Failed to create issue: '' @ show_int (int (status r)))),
     sent (post_request (issues_url u a) (getAuthHeaders e c) (issue_body a)) rest w1)"
  using assms by (simp add: createIssue_js_def getUsername_js_eq authHeaders_eq run_defs sent_def)

lemma createIssue_not_ok:
  assumes "getUsername e c w = (Inr u, w1)" and "upstream w1 = Responds r # rest" and "\<not> ok r"
    and "truthy (sv (title a))"
  shows "createIssue e a c w =
    (Inl (upstream_error ''Failed to create issue: '' r),
     sent (post_request (issues_url u a) (getAuthHeaders e c) (issue_body a)) rest w1)"
  using assms
  by (simp add: createIssue_def run_defs sent_def upstream_error_def split: option.split sum.split)

lemma createRepo_not_ok:
  assumes "getUsername e c w = (Inr u, w1)" and "upstream w1 = Responds r # rest" and "\<not> ok r"
    and "truthy (sv (name a))"
  shows "createRepo e a c w =
    (Inl (upstream_error ''Failed to create repo: '' r),
     sent (post_request (GITHUB_API @ ''/user/repos'') (getAuthHeaders e c) (repo_body a)) rest w1)"
  using assms
  by (simp add: createRepo_def run_defs sent_def upstream_error_def split: option.split sum.split)

lemma createRepo_js_not_ok:
  assumes "getUsername e c w = (Inr u, w1)" and "upstream w1 = Responds r # rest" and "\<not> ok r"
    and "truthy (sv (name a))"
  shows "createRepo_js e a c w =
    (Inl (upstream_error ''Failed to create repo: '' r),
     sent (post_request (GITHUB_API @ ''/user/repos'') (getAuthHeaders e c) (repo_body a)) rest w1)"
  using assms
  by (simp add: createRepo_js_def getUsername_js_eq authHeaders_eq run_defs sent_def upstream_error_def
      split: option.split sum.split)

lemma createPullRequest_not_ok:
  assumes "getUsername e c w = (Inr u, w1)" and "upstream w1 = Responds r # rest" and "\<not> ok r"
    and "truthy (or_js (sv (owner a)) u)" and "truthy (sv (repo a))" and "truthy (sv (title a))"
    and "truthy (sv (head a))"
  shows "createPullRequest e a c w =
    (Inl (upstream_error ''Failed to create PR: '' r),
     sent (post_request (pulls_url (or_js (sv (owner a)) u) a) (getAuthHeaders e c) (pr_body a)) rest w1)"
  using assms
  by (simp add: createPullRequest_def Let_def run_defs sent_def upstream_error_def
      split: option.split sum.split)

lemma createPullRequest_js_not_ok:
  assumes "getUsername e c w = (Inr u, w1)" and "upstream w1 = Responds r # rest" and "\<not> ok r"
    and "truthy (sv (owner a))" and "truthy (sv (repo a))" and "truthy (sv (title a))"
    and "truthy (sv (head a))"
  shows "createPullRequest_js e a c w =
    (Inl (upstream_error ''Failed to create PR: '' r),
     sent (post_request (pulls_url (sv (owner a)) a) (getAuthHeaders e c) (pr_body a)) rest w1)"
  using assms
  by (simp add: createPullRequest_js_def getUsername_js_eq authHeaders_eq run_defs sent_def
      upstream_error_def split: option.split sum.split)

section \<open>The claim about upstream failures\<close>

text \<open>
  C5 (as amended). For every action adapter of both renderings, when the action's own
  request is answered with a non-success status, the adapter raises an error and the
  world is left with that one request sent: nothing is swallowed and nothing is sent
  again. get\_repo and check\_ci\_status send their request at once; the other adapters
  send it once the username is resolved and the required parameters are given (for the
  create\_pull\_request of the api module the owner may be the acting username).
  list\_repos, check\_ci\_status, get\_recent\_activity, search\_repos and the
  create\_issue of index.js report the numeric status only and never read the body;
  get\_repo reports the owner/repo pair; create\_repo, create\_pull\_request and the
  create\_issue of the api module read the body and, when it parses to a value with
  properties, report its \<^verbatim>\<open>message\<close> when that is truthy and the numeric status
  otherwise.
\<close>

theorem failure_status_raises:
  assumes "upstream w1 = Responds r # rest" and "\<not> ok r"
  shows
   "(getRepo e a c w1 =
      (Inl (Error (''Repo not found: '' @ tostr (sv (owner a)) @ ''/'' @ tostr (sv (repo a)))),
       sent (get_request (repo_url a) (getAuthHeaders e c)) rest w1) \<and>
     getRepo_js e a c w1 =
      (Inl (Error (''Repo not found: '' @ tostr (sv (owner a)) @ ''/'' @ tostr (sv (repo a)))),
       sent (get_request (repo_url a) (getAuthHeaders e c)) rest w1) \<and>
     checkCIStatus e a c w1 =
      (Inl (Error (''Failed to get CI status: '' @ show_int (int (status r)))),
       sent (get_request (runs_url a) (getAuthHeaders e c)) rest w1) \<and>
     checkCIStatus_js e a c w1 =
      (Inl (Error (''Failed to get CI status: '' @ show_int (int (status r)))),
       sent (get_request (runs_url a) (getAuthHeaders e c)) rest w1)) \<and>
    (\<forall>w u. getUsername e c w = (Inr u, w1) \<longrightarrow>
      listRepos lc e a c w =
        (Inl (Error (''GitHub API error: '' @ show_int (int (status r)))),
         sent (get_request (repos_url u a) (getAuthHeaders e c)) rest w1) \<and>
      listRepos_js lc e a c w =
        (Inl (Error (''GitHub API error: '' @ show_int (int (status r)))),
         sent (get_request (repos_url u a) (getAuthHeaders e c)) rest w1) \<and>
      (truthy (sv (repo a)) \<longrightarrow>
         getRecentActivity e a c w =
           (Inl (Error (''Failed to get activity: '' @ show_int (int (status r)))),
            sent (get_request (commits_url u a) (getAuthHeaders e c)) rest w1) \<and>
         getRecentActivity_js e a c w =
           (Inl (Error (''Failed to get activity: '' @ show_int (int (status r)))),
            sent (get_request (commits_url u a) (getAuthHeaders e c)) rest w1)) \<and>
      (truthy (sv (query a)) \<longrightarrow>
         searchRepos e a c w =
           (Inl (Error (''Search failed: '' @ show_int (int (status r)))),
            sent (get_request (search_url u a) (getAuthHeaders e c)) rest w1) \<and>
         searchRepos_js e a c w =
           (Inl (Error (''Search failed: '' @ show_int (int (status r)))),
            sent (get_request (search_url u a) (getAuthHeaders e c)) rest w1)) \<and>
      (truthy (sv (title a)) \<longrightarrow>
         createIssue_js e a c w =
           (Inl (Error (''Failed to create issue: '' @ show_int (int (status r)))),
            sent (post_request (issues_url u a) (getAuthHeaders e c) (issue_body a)) rest w1) \<and>
         (\<exists>err. createIssue e a c w =
            (Inl err, sent (post_request (issues_url u a) (getAuthHeaders e c) (issue_body a)) rest w1)) \<and>
         (\<forall>b m. content r = Some b \<and> getp b ''message'' = Inr m \<longrightarrow>
            fst (createIssue e a c w) =
              Inl (Error (''Failed to create issue: '' @ tostr (or_js m (JNum (int (status r)))))))) \<and>
      (truthy (sv (name a)) \<longrightarrow>
         (\<exists>err. createRepo e a c w =
            (Inl err, sent (post_request (GITHUB_API @ ''/user/repos'') (getAuthHeaders e c) (repo_body a)) rest w1)) \<and>
         createRepo_js e a c w = createRepo e a c w \<and>
         (\<forall>b m. content r = Some b \<and> getp b ''message'' = Inr m \<longrightarrow>
            fst (createRepo e a c w) =
              Inl (Error (''Failed to create repo: '' @ tostr (or_js m (JNum (int (status r)))))))) \<and>
      (truthy (or_js (sv (owner a)) u) \<and> truthy (sv (repo a)) \<and> truthy (sv (title a)) \<and>
         truthy (sv (head a)) \<longrightarrow>
         (\<exists>err. createPullRequest e a c w =
            (Inl err, sent (post_request (pulls_url (or_js (sv (owner a)) u) a) (getAuthHeaders e c)
                              (pr_body a)) rest w1)) \<and>
         (\<forall>b m. content r = Some b \<and> getp b ''message'' = Inr m \<longrightarrow>
            fst (createPullRequest e a c w) =
              Inl (Error (''Failed to create PR: '' @ tostr (or_js m (JNum (int (status r)))))))) \<and>
      (truthy (sv (owner a)) \<and> truthy (sv (repo a)) \<and> truthy (sv (title a)) \<and>
         truthy (sv (head a)) \<longrightarrow>
         (\<exists>err. createPullRequest_js e a c w =
            (Inl err, sent (post_request (pulls_url (sv (owner a)) a) (getAuthHeaders e c)
                              (pr_body a)) rest w1)) \<and>
         (\<forall>b m. content r = Some b \<and> getp b ''message'' = Inr m \<longrightarrow>
            fst (createPullRequest_js e a c w) =
              Inl (Error (''Failed to create PR: '' @ tostr (or_js m (JNum (int (status r)))))))))"
proof (intro conjI allI impI)
  note h = assms
  show "getRepo e a c w1 =
      (Inl (Error (''Repo not found: '' @ tostr (sv (owner a)) @ ''/'' @ tostr (sv (repo a)))),
       sent (get_request (repo_url a) (getAuthHeaders e c)) rest w1)"
    by (rule getRepo_not_ok [OF h])
  show "getRepo_js e a c w1 =
      (Inl (Error (''Repo not found: '' @ tostr (sv (owner a)) @ ''/'' @ tostr (sv (repo a)))),
       sent (get_request (repo_url a) (getAuthHeaders e c)) rest w1)"
    by (rule getRepo_js_not_ok [OF h])
  show "checkCIStatus e a c w1 =
      (Inl (Error (''Failed to get CI status: '' @ show_int (int (status r)))),
       sent (get_request (runs_url a) (getAuthHeaders e c)) rest w1)"
    by (rule checkCIStatus_not_ok [OF h])
  show "checkCIStatus_js e a c w1 =
      (Inl (Error (''Failed to get CI status: '' @ show_int (int (status r)))),
       sent (get_request (runs_url a) (getAuthHeaders e c)) rest w1)"
    by (rule checkCIStatus_js_not_ok [OF h])
next
  fix w u assume u: "getUsername e c w = (Inr u, w1)"
  note h = u assms
  show "listRepos lc e a c w =
        (Inl (Error (''GitHub API error: '' @ show_int (int (status r)))),
         sent (get_request (repos_url u a) (getAuthHeaders e c)) rest w1)"
    by (rule listRepos_not_ok [OF h])
  show "listRepos_js lc e a c w =
        (Inl (Error (''GitHub API error: '' @ show_int (int (status r)))),
         sent (get_request (repos_url u a) (getAuthHeaders e c)) rest w1)"
    by (rule listRepos_js_not_ok [OF h])
  {
    assume p: "truthy (sv (repo a))"
    show "getRecentActivity e a c w =
           (Inl (Error (''Failed to get activity: '' @ show_int (int (status r)))),
            sent (get_request (commits_url u a) (getAuthHeaders e c)) rest w1)"
      by (rule getRecentActivity_not_ok [OF h p])
    show "getRecentActivity_js e a c w =
           (Inl (Error (''Failed to get activity: '' @ show_int (int (status r)))),
            sent (get_request (commits_url u a) (getAuthHeaders e c)) rest w1)"
      by (rule getRecentActivity_js_not_ok [OF h p])
  }
  {
    assume p: "truthy (sv (query a))"
    show "searchRepos e a c w =
           (Inl (Error (''Search failed: '' @ show_int (int (status r)))),
            sent (get_request (search_url u a) (getAuthHeaders e c)) rest w1)"
      by (rule searchRepos_not_ok [OF h p])
    show "searchRepos_js e a c w =
           (Inl (Error (''Search failed: '' @ show_int (int (status r)))),
            sent (get_request (search_url u a) (getAuthHeaders e c)) rest w1)"
      by (rule searchRepos_js_not_ok [OF h p])
  }
  {
    assume p: "truthy (sv (title a))"
    show "createIssue_js e a c w =
           (Inl (Error (''Failed to create issue: '' @ show_int (int (status r)))),
            sent (post_request (issues_url u a) (getAuthHeaders e c) (issue_body a)) rest w1)"
      by (rule createIssue_js_not_ok [OF h p])
    show "\<exists>err. createIssue e a c w =
            (Inl err, sent (post_request (issues_url u a) (getAuthHeaders e c) (issue_body a)) rest w1)"
      by (simp add: createIssue_not_ok [OF h p])
    fix b m assume "content r = Some b \<and> getp b ''message'' = Inr m"
    then show "fst (createIssue e a c w) =
              Inl (Error (''Failed to create issue: '' @ tostr (or_js m (JNum (int (status r))))))"
      by (simp add: createIssue_not_ok [OF h p] upstream_error_def)
  }
  {
    assume p: "truthy (sv (name a))"
    show "\<exists>err. createRepo e a c w =
            (Inl err, sent (post_request (GITHUB_API @ ''/user/repos'') (getAuthHeaders e c) (repo_body a)) rest w1)"
      by (simp add: createRepo_not_ok [OF h p])
    show "createRepo_js e a c w = createRepo e a c w"
      by (simp add: createRepo_not_ok [OF h p] createRepo_js_not_ok [OF h p])
    fix b m assume "content r = Some b \<and> getp b ''message'' = Inr m"
    then show "fst (createRepo e a c w) =
              Inl (Error (''Failed to create repo: '' @ tostr (or_js m (JNum (int (status r))))))"
      by (simp add: createRepo_not_ok [OF h p] upstream_error_def)
  }
  {
    assume "truthy (or_js (sv (owner a)) u) \<and> truthy (sv (repo a)) \<and> truthy (sv (title a)) \<and>
         truthy (sv (head a))"
    then have p: "truthy (or_js (sv (owner a)) u)" "truthy (sv (repo a))" "truthy (sv (title a))"
      "truthy (sv (head a))"
      by simp_all
    show "\<exists>err. createPullRequest e a c w =
            (Inl err, sent (post_request (pulls_url (or_js (sv (owner a)) u) a) (getAuthHeaders e c)
                              (pr_body a)) rest w1)"
      by (simp add: createPullRequest_not_ok [OF h p])
    fix b m assume "content r = Some b \<and> getp b ''message'' = Inr m"
    then show "fst (createPullRequest e a c w) =
              Inl (Error (''Failed to create PR: '' @ tostr (or_js m (JNum (int (status r))))))"
      by (simp add: createPullRequest_not_ok [OF h p] upstream_error_def)
  }
  {
    assume "truthy (sv (owner a)) \<and> truthy (sv (repo a)) \<and> truthy (sv (title a)) \<and>
         truthy (sv (head a))"
    then have p: "truthy (sv (owner a))" "truthy (sv (repo a))" "truthy (sv (title a))"
      "truthy (sv (head a))"
      by simp_all
    show "\<exists>err. createPullRequest_js e a c w =
            (Inl err, sent (post_request (pulls_url (sv (owner a)) a) (getAuthHeaders e c)
                              (pr_body a)) rest w1)"
      by (simp add: createPullRequest_js_not_ok [OF h p])
    fix b m assume "content r = Some b \<and> getp b ''message'' = Inr m"
    then show "fst (createPullRequest_js e a c w) =
              Inl (Error (''Failed to create PR: '' @ tostr (or_js m (JNum (int (status r))))))"
      by (simp add: createPullRequest_js_not_ok [OF h p] upstream_error_def)
  }
qed

theorem failure_status_raises_witness:
  "getRepo no_env demo_args no_context (fresh [answer 404 (JObj [(''message'', JStr ''Not Found'')])]) =
     (Inl (Error ''Repo not found: acme/widget''),
      sent (get_request ''https://api.github.com/repos/acme/widget'' base_headers) [] (fresh [])) \<and>
   checkCIStatus_js no_env demo_args no_context (fresh [answer 404 (JObj [(''message'', JStr ''Not Found'')])]) =
     (Inl (Error ''Failed to get CI status: 404''),
      sent (get_request ''https://api.github.com/repos/acme/widget/actions/runs?per_page=5'' base_headers)
        [] (fresh [])) \<and>
   listRepos ascii_lower octo_env (demo_args\<lparr>owner := None\<rparr>) no_context
     (fresh [answer 422 (JObj [(''message'', JStr ''Validation Failed'')])]) =
     (Inl (Error ''GitHub API error: 422''),
      sent (get_request ''https://api.github.com/users/octo/repos?type=owner&sort=updated&direction=desc&per_page=30''
              base_headers) [] (fresh [])) \<and>
   fst (createRepo octo_env (demo_args\<lparr>owner := None\<rparr>) no_context
     (fresh [answer 422 (JObj [(''message'', JStr ''Validation Failed'')])])) =
     Inl (Error ''Failed to create repo: Validation Failed'') \<and>
   fst (createPullRequest octo_env (demo_args\<lparr>owner := None\<rparr>) no_context
     (fresh [answer 422 (JObj [(''message'', JStr ''Validation Failed'')])])) =
     Inl (Error ''Failed to create PR: Validation Failed'') \<and>
   fst (createPullRequest_js octo_env demo_args no_context
     (fresh [answer 422 (JObj [(''message'', JNull)])])) =
     Inl (Error ''Failed to create PR: 422'')"
proof -
  let ?nf = "\<lparr>status = 404, content = Some (JObj [(''message'', JStr ''Not Found'')])\<rparr>"
  let ?vf = "\<lparr>status = 422, content = Some (JObj [(''message'', JStr ''Validation Failed'')])\<rparr>"
  let ?nm = "\<lparr>status = 422, content = Some (JObj [(''message'', JNull)])\<rparr>"
  have up: "upstream (fresh [answer 404 (JObj [(''message'', JStr ''Not Found'')])]) = Responds ?nf # []"
    "upstream (fresh [answer 422 (JObj [(''message'', JStr ''Validation Failed'')])]) = Responds ?vf # []"
    "upstream (fresh [answer 422 (JObj [(''message'', JNull)])]) = Responds ?nm # []"
    by (simp_all add: fresh_def answer_def)
  have bad: "\<not> ok ?nf" "\<not> ok ?vf" "\<not> ok ?nm"
    by (simp_all add: ok_def)
  have user: "\<And>w. getUsername octo_env no_context w = (Inr (JStr ''octo''), w)"
    by (simp add: getUsername_env octo_env_def)
  have given: "truthy (sv (repo demo_args))" "truthy (sv (title demo_args))"
    "truthy (sv (head demo_args))" "truthy (sv (owner demo_args))" "truthy (sv (name demo_args))"
    "truthy (or_js (sv (owner (demo_args\<lparr>owner := None\<rparr>))) (JStr ''octo''))"
    by (simp_all add: demo_args_def no_args_def or_js_def)
  note direct = failure_status_raises [OF up(1) bad(1), where e = no_env and a = demo_args
      and c = no_context, THEN conjunct1]
  note keyed = failure_status_raises [OF up(2) bad(2), where e = octo_env
      and a = "demo_args\<lparr>owner := None\<rparr>" and c = no_context and lc = ascii_lower,
      THEN conjunct2, rule_format, OF user]
  note keyed' = failure_status_raises [OF up(3) bad(3), where e = octo_env and a = demo_args
      and c = no_context and lc = ascii_lower, THEN conjunct2, rule_format, OF user]
  from direct keyed keyed' given show ?thesis
    by (simp add: fresh_def answer_def no_env_def octo_env_def demo_args_def no_args_def
        no_context_def sent_def repo_url_def runs_url_def repos_url_def or_js_def getAuthHeaders_def
        github_of_def GITHUB_API_def show_int_def dec.simps char_of_def bit_Suc_0_iff)
qed

text \<open>
  C5 as stated fails: list\_repos answered with 404 and a parseable error body reports
  the status, not the upstream reason.
\<close>

theorem listRepos_ignores_error_body:
  "fst (listRepos ascii_lower octo_env no_args no_context
     (fresh [answer 404 (JObj [(''message'', JStr ''Not Found'')])])) =
     Inl (Error ''GitHub API error: 404'')"
  by (simp add: listRepos_def getUsername_def run_defs octo_env_def fresh_def answer_def ok_def
      show_int_def dec.simps char_of_def bit_Suc_0_iff)

section \<open>What a successful call went through\<close>

lemma listRepos_Inr:
  assumes "fst (listRepos lc e a c w) = Inr res"
  shows "\<exists>u w1 r rest repos filtered limited total.
     getUsername e c w = (Inr u, w1) \<and> upstream w1 = Responds r # rest \<and> ok r \<and>
     content r = Some repos \<and>
     (if truthy (sv (language a)) then filter_js (language_matches lc (tostr (sv (language a)))) repos
      else Inr repos) = Inr filtered \<and>
     slice_js filtered (dflt (limit a) 30) = Inr limited \<and> length_js limited = Inr total \<and>
     res = JObj [(''total'', total), (''repos'', limited)]"
  using assms
  by (auto simp add: listRepos_def run_defs
      split: prod.splits sum.splits option.splits if_splits list.splits outcome.splits)

lemma listRepos_js_Inr:
  assumes "fst (listRepos_js lc e a c w) = Inr res"
  shows "\<exists>u w1 r rest repos filtered limited total summaries.
     getUsername e c w = (Inr u, w1) \<and> upstream w1 = Responds r # rest \<and> ok r \<and>
     content r = Some repos \<and>
     (if truthy (sv (language a)) then filter_js (language_matches lc (tostr (sv (language a)))) repos
      else Inr repos) = Inr filtered \<and>
     slice_js filtered (or_int (limit a) 30) = Inr limited \<and> length_js limited = Inr total \<and>
     map_js repo_summary limited = Inr summaries \<and>
     res = JObj [(''total'', total), (''repos'', summaries)]"
  using assms
  by (auto simp add: listRepos_js_def getUsername_js_eq authHeaders_eq run_defs
      split: prod.splits sum.splits option.splits if_splits list.splits outcome.splits)

lemma searchRepos_Inr:
  assumes "fst (searchRepos e a c w) = Inr res"
  shows "\<exists>u w1 r rest d total_count items repos.
     getUsername e c w = (Inr u, w1) \<and> upstream w1 = Responds r # rest \<and> ok r \<and>
     content r = Some d \<and> getp d ''total_count'' = Inr total_count \<and> getp d ''items'' = Inr items \<and>
     map_js search_hit (or_js items (JArr [])) = Inr repos \<and>
     res = JObj [(''total'', total_count), (''repos'', repos)]"
  using assms
  by (auto simp add: searchRepos_def run_defs
      split: prod.splits sum.splits option.splits if_splits list.splits outcome.splits)

lemma searchRepos_js_Inr:
  assumes "fst (searchRepos_js e a c w) = Inr res"
  shows "\<exists>u w1 r rest d total_count items mapped.
     getUsername e c w = (Inr u, w1) \<and> upstream w1 = Responds r # rest \<and> ok r \<and>
     content r = Some d \<and> getp d ''total_count'' = Inr total_count \<and> getp d ''items'' = Inr items \<and>
     (if nullish items then Inr JUndefined else map_js search_hit_js items) = Inr mapped \<and>
     res = JObj [(''total'', total_count), (''repos'', or_js mapped (JArr []))]"
  using assms
  by (auto simp add: searchRepos_js_def getUsername_js_eq authHeaders_eq run_defs
      split: prod.splits sum.splits option.splits if_splits list.splits outcome.splits)

lemma getRecentActivity_Inr:
  assumes "fst (getRecentActivity e a c w) = Inr res"
  shows "\<exists>u w1 r rest commits entries.
     getUsername e c w = (Inr u, w1) \<and> upstream w1 = Responds r # rest \<and> ok r \<and>
     truthy (sv (repo a)) \<and> content r = Some commits \<and> map_js commit_entry commits = Inr entries \<and>
     res = JObj [(''repo'', JStr (tostr u @ ''/'' @ tostr (sv (repo a)))), (''commits'', entries)]"
  using assms
  by (auto simp add: getRecentActivity_def run_defs
      split: prod.splits sum.splits option.splits if_splits list.splits outcome.splits)

section \<open>Limits, filters and projections\<close>

lemma slice_js_length:
  "slice_js v n = Inr limited \<Longrightarrow> 0 \<le> n \<Longrightarrow> \<exists>k. length_js limited = Inr (JNum k) \<and> k \<le> n"
  by (cases v) (auto simp add: slice0_def)

lemma or_int_positive: "0 < dflt l d \<Longrightarrow> or_int l d = dflt l d"
  by (cases l) auto

lemma language_matches_True: "(language_matches lc lang r = Inr True) = has_language lc lang r"
  by (auto simp add: language_matches_def has_language_def and_then_def split: sum.splits jsval.splits)

lemma repo_summary_language: "repo_summary r = Inr s \<Longrightarrow> getp s ''language'' = getp r ''language''"
  by (auto simp add: repo_summary_def and_then_def split: sum.splits)

lemma repo_summary_has_language:
  "repo_summary r = Inr s \<Longrightarrow> has_language lc lang r \<Longrightarrow> has_language lc lang s"
  by (simp add: has_language_def repo_summary_language)

lemma search_hit_constants:
  "search_hit r = Inr h \<Longrightarrow>
     getp h ''forks'' = Inr (JNum 0) \<and> getp h ''updated'' = Inr (JStr []) \<and>
     getp h ''private'' = Inr (JBool False)"
  by (auto simp add: search_hit_def and_then_def split: sum.splits)

lemma commit_entry_message:
  "commit_entry x = Inr entry \<Longrightarrow>
     \<exists>cm m. getp x ''commit'' = Inr cm \<and> getp cm ''message'' = Inr (JStr m) \<and>
       getp entry ''message'' = Inr (JStr (takeWhile (\<lambda>ch. ch \<noteq> CHR 0x0A) m))"
proof -
  assume entry: "commit_entry x = Inr entry"
  then obtain cm msg line where cm: "getp x ''commit'' = Inr cm"
    and msg: "getp cm ''message'' = Inr msg" and line: "split_nl_0 msg = Inr line"
    and field: "getp entry ''message'' = Inr line"
    by (auto simp add: commit_entry_def and_then_def split: sum.splits)
  from line obtain m where "msg = JStr m" and "line = JStr (first_line m)"
    by (cases msg) auto
  with cm msg field show ?thesis
    by (simp add: first_line_def)
qed

lemma searchRepos_Inr_sent:
  assumes "fst (searchRepos e a c w) = Inr res"
  shows "\<exists>u w1 r rest. getUsername e c w = (Inr u, w1) \<and> upstream w1 = Responds r # rest \<and>
     snd (searchRepos e a c w) = sent (get_request (search_url u a) (getAuthHeaders e c)) rest w1"
  using assms
  by (auto simp add: searchRepos_def run_defs sent_def
      split: prod.splits sum.splits option.splits if_splits list.splits outcome.splits)

lemma searchRepos_js_Inr_sent:
  assumes "fst (searchRepos_js e a c w) = Inr res"
  shows "\<exists>u w1 r rest. getUsername e c w = (Inr u, w1) \<and> upstream w1 = Responds r # rest \<and>
     snd (searchRepos_js e a c w) = sent (get_request (search_url u a) (getAuthHeaders e c)) rest w1"
  using assms
  by (auto simp add: searchRepos_js_def getUsername_js_eq authHeaders_eq run_defs sent_def
      split: prod.splits sum.splits option.splits if_splits list.splits outcome.splits)

lemma searchRepos_limit_free:
  "fst (searchRepos e (a\<lparr>limit := l\<rparr>) c w) = fst (searchRepos e a c w)"
proof -
  obtain ru w1 where g: "getUsername e c w = (ru, w1)"
    by (cases "getUsername e c w")
  show ?thesis
  proof (cases ru)
    case (Inl err)
    with g show ?thesis by (simp add: searchRepos_def await_def)
  next
    case (Inr u)
    show ?thesis
    proof (cases "upstream w1")
      case Nil
      with g Inr show ?thesis by (simp add: searchRepos_def run_defs)
    next
      case (Cons x rest)
      with g Inr show ?thesis
        by (cases x) (simp_all add: searchRepos_def run_defs split: sum.split option.split)
    qed
  qed
qed

lemma searchRepos_js_limit_free:
  "fst (searchRepos_js e (a\<lparr>limit := l\<rparr>) c w) = fst (searchRepos_js e a c w)"
proof -
  obtain ru w1 where g: "getUsername e c w = (ru, w1)"
    by (cases "getUsername e c w")
  show ?thesis
  proof (cases ru)
    case (Inl err)
    with g show ?thesis by (simp add: searchRepos_js_def getUsername_js_eq await_def)
  next
    case (Inr u)
    show ?thesis
    proof (cases "upstream w1")
      case Nil
      with g Inr show ?thesis by (simp add: searchRepos_js_def getUsername_js_eq run_defs)
    next
      case (Cons x rest)
      with g Inr show ?thesis
        by (cases x) (simp_all add: searchRepos_js_def getUsername_js_eq run_defs
            split: sum.split option.split)
    qed
  qed
qed

section \<open>The claims about listing and searching\<close>

text \<open>
  C4 (as amended). Every list\_repos that succeeds returns at most \<open>limit\<close> repositories
  (default 30) when the limit is omitted or positive, and in the api module also when it
  is 0; \<open>total\<close> is that length. search\_repos does not truncate on the client: the
  limit (default 30) is sent upstream as the \<^verbatim>\<open>per_page\<close> parameter of the one request
  and has no other effect on the outcome, and the returned \<open>repos\<close> has one entry for
  each item of the upstream body.
\<close>

theorem repos_length_and_limit:
  "(fst (listRepos lc e a c w) = Inr res \<and> 0 \<le> dflt (limit a) 30 \<longrightarrow>
      (\<exists>n v. res = JObj [(''total'', JNum n), (''repos'', v)] \<and>
         length_js v = Inr (JNum n) \<and> n \<le> dflt (limit a) 30)) \<and>
   (fst (listRepos_js lc e a c w) = Inr res \<and> 0 < dflt (limit a) 30 \<longrightarrow>
      (\<exists>xs. res = JObj [(''total'', JNum (int (length xs))), (''repos'', JArr xs)] \<and>
         int (length xs) \<le> dflt (limit a) 30)) \<and>
   (fst (searchRepos e a c w) = Inr res \<longrightarrow>
      (\<exists>u w1 r rest d items t hits.
         getUsername e c w = (Inr u, w1) \<and> upstream w1 = Responds r # rest \<and>
         snd (searchRepos e a c w) =
           sent (get_request (GITHUB_API @ ''/search/repositories?q=''
                   @ encodeURIComponent (tostr (sv (query a))) @ ''+user:'' @ tostr u
                   @ ''&sort='' @ dflt (sort_arg a) ''updated''
                   @ ''&per_page='' @ show_int (dflt (limit a) 30)) (getAuthHeaders e c)) rest w1 \<and>
         content r = Some d \<and> getp d ''items'' = Inr items \<and>
         res = JObj [(''total'', t), (''repos'', JArr hits)] \<and>
         (case items of JArr xs \<Rightarrow> length hits = length xs | _ \<Rightarrow> hits = []))) \<and>
   (fst (searchRepos_js e a c w) = Inr res \<longrightarrow>
      (\<exists>u w1 r rest d items t hits.
         getUsername e c w = (Inr u, w1) \<and> upstream w1 = Responds r # rest \<and>
         snd (searchRepos_js e a c w) =
           sent (get_request (GITHUB_API @ ''/search/repositories?q=''
                   @ encodeURIComponent (tostr (sv (query a))) @ ''+user:'' @ tostr u
                   @ ''&sort='' @ dflt (sort_arg a) ''updated''
                   @ ''&per_page='' @ show_int (dflt (limit a) 30)) (getAuthHeaders e c)) rest w1 \<and>
         content r = Some d \<and> getp d ''items'' = Inr items \<and>
         res = JObj [(''total'', t), (''repos'', JArr hits)] \<and>
         (case items of JArr xs \<Rightarrow> length hits = length xs | _ \<Rightarrow> hits = []))) \<and>
   (\<forall>l. fst (searchRepos e (a\<lparr>limit := l\<rparr>) c w) = fst (searchRepos e a c w)) \<and>
   (\<forall>l. fst (searchRepos_js e (a\<lparr>limit := l\<rparr>) c w) = fst (searchRepos_js e a c w))"
proof (intro conjI impI allI)
  assume "fst (listRepos lc e a c w) = Inr res \<and> 0 \<le> dflt (limit a) 30"
  then have run: "fst (listRepos lc e a c w) = Inr res" and lim: "0 \<le> dflt (limit a) 30"
    by simp_all
  from listRepos_Inr [OF run] obtain filtered limited total where
    sl: "slice_js filtered (dflt (limit a) 30) = Inr limited" and
    len: "length_js limited = Inr total" and
    res: "res = JObj [(''total'', total), (''repos'', limited)]"
    by blast
  from slice_js_length [OF sl lim] len obtain k where "total = JNum k" and "k \<le> dflt (limit a) 30"
    by auto
  with len res show "\<exists>n v. res = JObj [(''total'', JNum n), (''repos'', v)] \<and>
         length_js v = Inr (JNum n) \<and> n \<le> dflt (limit a) 30"
    by auto
next
  assume "fst (listRepos_js lc e a c w) = Inr res \<and> 0 < dflt (limit a) 30"
  then have run: "fst (listRepos_js lc e a c w) = Inr res" and lim: "0 < dflt (limit a) 30"
    by simp_all
  from listRepos_js_Inr [OF run] obtain filtered limited total summaries where
    sl: "slice_js filtered (or_int (limit a) 30) = Inr limited" and
    len: "length_js limited = Inr total" and
    mp: "map_js repo_summary limited = Inr summaries" and
    res: "res = JObj [(''total'', total), (''repos'', summaries)]"
    by blast
  from map_js_Inr [OF mp] obtain xs ys where
    xs: "limited = JArr xs" and ys: "summaries = JArr ys" and m: "mapE repo_summary xs = Inr ys"
    by blast
  have same: "length ys = length xs"
    using m by (rule mapE_length)
  from sl lim have sl': "slice_js filtered (dflt (limit a) 30) = Inr limited"
    by (simp add: or_int_positive)
  from lim have "0 \<le> dflt (limit a) 30" by simp
  from slice_js_length [OF sl' this] xs have "int (length xs) \<le> dflt (limit a) 30"
    by simp
  with len xs ys res same
  show "\<exists>xs. res = JObj [(''total'', JNum (int (length xs))), (''repos'', JArr xs)] \<and>
         int (length xs) \<le> dflt (limit a) 30"
    by auto
next
  assume run: "fst (searchRepos e a c w) = Inr res"
  from searchRepos_Inr [OF run] obtain u w1 r rest d t items repos where
    u: "getUsername e c w = (Inr u, w1)" and up: "upstream w1 = Responds r # rest" and
    d: "content r = Some d" and items: "getp d ''items'' = Inr items" and
    mp: "map_js search_hit (or_js items (JArr [])) = Inr repos" and
    res: "res = JObj [(''total'', t), (''repos'', repos)]"
    by blast
  from map_js_Inr [OF mp] obtain xs hits where
    xs: "or_js items (JArr []) = JArr xs" and hits: "repos = JArr hits" and
    m: "mapE search_hit xs = Inr hits"
    by blast
  have "case items of JArr ys \<Rightarrow> length hits = length ys | _ \<Rightarrow> hits = []"
    using xs mapE_length [OF m] by (cases items) (auto simp add: or_js_def split: if_splits)
  moreover from searchRepos_Inr_sent [OF run] u up
  have "snd (searchRepos e a c w) =
      sent (get_request (search_url u a) (getAuthHeaders e c)) rest w1"
    by auto
  ultimately have "(case items of JArr ys \<Rightarrow> length hits = length ys | _ \<Rightarrow> hits = []) \<and>
    snd (searchRepos e a c w) =
           sent (get_request (GITHUB_API @ ''/search/repositories?q=''
                   @ encodeURIComponent (tostr (sv (query a))) @ ''+user:'' @ tostr u
                   @ ''&sort='' @ dflt (sort_arg a) ''updated''
                   @ ''&per_page='' @ show_int (dflt (limit a) 30)) (getAuthHeaders e c)) rest w1"
    by (simp add: search_url_def)
  with u up d items res hits
  show "\<exists>u w1 r rest d items t hits.
         getUsername e c w = (Inr u, w1) \<and> upstream w1 = Responds r # rest \<and>
         snd (searchRepos e a c w) =
           sent (get_request (GITHUB_API @ ''/search/repositories?q=''
                   @ encodeURIComponent (tostr (sv (query a))) @ ''+user:'' @ tostr u
                   @ ''&sort='' @ dflt (sort_arg a) ''updated''
                   @ ''&per_page='' @ show_int (dflt (limit a) 30)) (getAuthHeaders e c)) rest w1 \<and>
         content r = Some d \<and> getp d ''items'' = Inr items \<and>
         res = JObj [(''total'', t), (''repos'', JArr hits)] \<and>
         (case items of JArr xs \<Rightarrow> length hits = length xs | _ \<Rightarrow> hits = [])"
    by blast
next
  assume run: "fst (searchRepos_js e a c w) = Inr res"
  from searchRepos_js_Inr [OF run] obtain u w1 r rest d t items mapped where
    u: "getUsername e c w = (Inr u, w1)" and up: "upstream w1 = Responds r # rest" and
    d: "content r = Some d" and items: "getp d ''items'' = Inr items" and
    mp: "(if nullish items then Inr JUndefined else map_js search_hit_js items) = Inr mapped" and
    res: "res = JObj [(''total'', t), (''repos'', or_js mapped (JArr []))]"
    by blast
  have "\<exists>hits. or_js mapped (JArr []) = JArr hits \<and>
      (case items of JArr ys \<Rightarrow> length hits = length ys | _ \<Rightarrow> hits = [])"
  proof (cases "nullish items")
    case True
    with mp have "mapped = JUndefined" by simp
    with True show ?thesis by (auto simp add: or_js_def nullish_def)
  next
    case False
    with mp have "map_js search_hit_js items = Inr mapped" by simp
    from map_js_Inr [OF this] obtain xs ys where
      "items = JArr xs" and "mapped = JArr ys" and "mapE search_hit_js xs = Inr ys"
      by blast
    then show ?thesis by (auto simp add: or_js_def dest: mapE_length)
  qed
  moreover from searchRepos_js_Inr_sent [OF run] u up
  have "snd (searchRepos_js e a c w) =
      sent (get_request (search_url u a) (getAuthHeaders e c)) rest w1"
    by auto
  ultimately have "(\<exists>hits. or_js mapped (JArr []) = JArr hits \<and>
      (case items of JArr ys \<Rightarrow> length hits = length ys | _ \<Rightarrow> hits = [])) \<and>
    snd (searchRepos_js e a c w) =
           sent (get_request (GITHUB_API @ ''/search/repositories?q=''
                   @ encodeURIComponent (tostr (sv (query a))) @ ''+user:'' @ tostr u
                   @ ''&sort='' @ dflt (sort_arg a) ''updated''
                   @ ''&per_page='' @ show_int (dflt (limit a) 30)) (getAuthHeaders e c)) rest w1"
    by (simp add: search_url_def)
  with u up d items res
  show "\<exists>u w1 r rest d items t hits.
         getUsername e c w = (Inr u, w1) \<and> upstream w1 = Responds r # rest \<and>
         snd (searchRepos_js e a c w) =
           sent (get_request (GITHUB_API @ ''/search/repositories?q=''
                   @ encodeURIComponent (tostr (sv (query a))) @ ''+user:'' @ tostr u
                   @ ''&sort='' @ dflt (sort_arg a) ''updated''
                   @ ''&per_page='' @ show_int (dflt (limit a) 30)) (getAuthHeaders e c)) rest w1 \<and>
         content r = Some d \<and> getp d ''items'' = Inr items \<and>
         res = JObj [(''total'', t), (''repos'', JArr hits)] \<and>
         (case items of JArr xs \<Rightarrow> length hits = length xs | _ \<Rightarrow> hits = [])"
    by blast
next
  fix l show "fst (searchRepos e (a\<lparr>limit := l\<rparr>) c w) = fst (searchRepos e a c w)"
    by (rule searchRepos_limit_free)
next
  fix l show "fst (searchRepos_js e (a\<lparr>limit := l\<rparr>) c w) = fst (searchRepos_js e a c w)"
    by (rule searchRepos_js_limit_free)
qed

theorem repos_length_and_limit_witness:
  "fst (listRepos ascii_lower octo_env (no_args\<lparr>limit := Some 1\<rparr>) no_context
     (fresh [answer 200 (JArr [JObj [(''name'', JStr ''a'')], JObj [(''name'', JStr ''b'')]])])) =
     Inr (JObj [(''total'', JNum 1), (''repos'', JArr [JObj [(''name'', JStr ''a'')]])]) \<and>
   (0::int) < dflt (limit (no_args\<lparr>limit := Some 1\<rparr>)) 30 \<and>
   (\<exists>n v. JObj [(''total'', JNum 1), (''repos'', JArr [JObj [(''name'', JStr ''a'')]])] =
        JObj [(''total'', JNum n), (''repos'', v)] \<and> length_js v = Inr (JNum n) \<and> n \<le> 1) \<and>
   (\<exists>res. fst (listRepos_js ascii_lower octo_env (no_args\<lparr>limit := Some 1\<rparr>) no_context
     (fresh [answer 200 (JArr [JObj [(''name'', JStr ''a'')], JObj [(''name'', JStr ''b'')]])])) = Inr res \<and>
     (\<exists>xs. res = JObj [(''total'', JNum (int (length xs))), (''repos'', JArr xs)] \<and> int (length xs) \<le> 1)) \<and>
   (\<exists>t hits. fst (searchRepos octo_env (no_args\<lparr>query := Some ''tool'', limit := Some 1\<rparr>) no_context
     (fresh [answer 200 (JObj [(''total_count'', JNum 1), (''items'', JArr [JObj [(''name'', JStr ''a'')]])])])) =
     Inr (JObj [(''total'', t), (''repos'', JArr hits)]) \<and> length hits = 1) \<and>
   snd (searchRepos octo_env (no_args\<lparr>query := Some ''tool'', limit := Some 1\<rparr>) no_context
     (fresh [answer 200 (JObj [(''total_count'', JNum 1), (''items'', JArr [JObj [(''name'', JStr ''a'')]])])])) =
     sent (get_request ''https://api.github.com/search/repositories?q=tool+user:octo&sort=updated&per_page=1''
             base_headers) [] (fresh []) \<and>
   (\<exists>t hits. fst (searchRepos_js octo_env (no_args\<lparr>query := Some ''tool'', limit := Some 1\<rparr>) no_context
     (fresh [answer 200 (JObj [(''total_count'', JNum 1), (''items'', JArr [JObj [(''name'', JStr ''a'')]])])])) =
     Inr (JObj [(''total'', t), (''repos'', JArr hits)]) \<and> length hits = 1)"
  using repos_length_and_limit
    [of ascii_lower octo_env "no_args\<lparr>limit := Some 1\<rparr>" no_context
        "fresh [answer 200 (JArr [JObj [(''name'', JStr ''a'')], JObj [(''name'', JStr ''b'')]])]"
        "JObj [(''total'', JNum 1), (''repos'', JArr [JObj [(''name'', JStr ''a'')]])]"]
    repos_length_and_limit
    [of ascii_lower octo_env "no_args\<lparr>query := Some ''tool'', limit := Some 1\<rparr>" no_context
        "fresh [answer 200 (JObj [(''total_count'', JNum 1), (''items'', JArr [JObj [(''name'', JStr ''a'')]])])]"]
  by (simp add: listRepos_def listRepos_js_def repo_summary_def searchRepos_def searchRepos_js_def
      search_hit_def search_hit_js_def getUsername_js_def getUsername_def getAuthHeaders_def
      authHeaders_def github_of_def run_defs and_then_def or_js_def nullish_def octo_env_def
      no_args_def no_context_def fresh_def answer_def ok_def slice0_def sent_def get_request_def
      search_url_def GITHUB_API_def encodeURIComponent_def encode_char_def unreserved_def
      show_int_def dec.simps char_of_def bit_Suc_0_iff)

text \<open>
  C4 as stated fails: search\_repos asked for at most one repository returns the two the
  upstream body holds, and the list\_repos of index.js asked for none returns one
  (\<^verbatim>\<open>args.limit || 30\<close>).
\<close>

theorem searchRepos_exceeds_limit:
  "fst (searchRepos octo_env (no_args\<lparr>query := Some ''tool'', limit := Some 1\<rparr>) no_context
     (fresh [answer 200 (JObj [(''total_count'', JNum 2),
        (''items'', JArr [JObj [(''name'', JStr ''a'')], JObj [(''name'', JStr ''b'')]])])])) =
     Inr (JObj [(''total'', JNum 2),
       (''repos'', JArr
          [JObj [(''name'', JStr ''a''), (''full_name'', JUndefined), (''description'', JUndefined),
                 (''stars'', JUndefined), (''language'', JUndefined), (''url'', JUndefined),
                 (''forks'', JNum 0), (''updated'', JStr []), (''private'', JBool False)],
           JObj [(''name'', JStr ''b''), (''full_name'', JUndefined), (''description'', JUndefined),
                 (''stars'', JUndefined), (''language'', JUndefined), (''url'', JUndefined),
                 (''forks'', JNum 0), (''updated'', JStr []), (''private'', JBool False)]])]) \<and>
   fst (listRepos_js ascii_lower octo_env (no_args\<lparr>limit := Some 0\<rparr>) no_context
     (fresh [answer 200 (JArr [JObj [(''name'', JStr ''a'')]])])) =
     Inr (JObj [(''total'', JNum 1),
       (''repos'', JArr
          [JObj [(''name'', JStr ''a''), (''full_name'', JUndefined), (''description'', JUndefined),
                 (''stars'', JUndefined), (''forks'', JUndefined), (''language'', JUndefined),
                 (''updated'', JUndefined), (''url'', JUndefined), (''private'', JUndefined)]])])"
  by (simp add: searchRepos_def search_hit_def listRepos_js_def repo_summary_def getUsername_js_def
      getUsername_def run_defs and_then_def or_js_def octo_env_def no_args_def fresh_def answer_def
      ok_def slice0_def)

section \<open>The language filter of list\_repos\<close>

text \<open>
  For every list\_repos that succeeds with a non-empty language filter and a limit that is
  omitted or positive (in the api module also 0), the upstream body is an array and the
  result is the first \<open>limit\<close> elements of its sub-list of repositories whose language
  is a string that \<open>toLowerCase\<close> maps to the same string as the filter (index.js: their
  projections, which keep the language). The filter runs on the whole fetched list,
  before the truncation.
\<close>

lemma listRepos_language_filter:
  assumes "language a = Some lang" and "lang \<noteq> []"
  shows
   "(fst (listRepos lc e a c w) = Inr res \<and> 0 \<le> dflt (limit a) 30 \<longrightarrow>
      (\<exists>u w1 r rest repos kept.
         getUsername e c w = (Inr u, w1) \<and> upstream w1 = Responds r # rest \<and>
         content r = Some (JArr repos) \<and>
         kept = take (nat (dflt (limit a) 30)) (filter (has_language lc lang) repos) \<and>
         res = JObj [(''total'', JNum (int (length kept))), (''repos'', JArr kept)] \<and>
         (\<forall>x \<in> set kept. has_language lc lang x))) \<and>
    (fst (listRepos_js lc e a c w) = Inr res \<and> 0 < dflt (limit a) 30 \<longrightarrow>
      (\<exists>u w1 r rest repos kept summaries.
         getUsername e c w = (Inr u, w1) \<and> upstream w1 = Responds r # rest \<and>
         content r = Some (JArr repos) \<and>
         kept = take (nat (dflt (limit a) 30)) (filter (has_language lc lang) repos) \<and>
         mapE repo_summary kept = Inr summaries \<and>
         res = JObj [(''total'', JNum (int (length kept))), (''repos'', JArr summaries)] \<and>
         (\<forall>s \<in> set summaries. has_language lc lang s)))"
proof (intro conjI impI)
  assume "fst (listRepos lc e a c w) = Inr res \<and> 0 \<le> dflt (limit a) 30"
  then have run: "fst (listRepos lc e a c w) = Inr res" and lim: "0 \<le> dflt (limit a) 30"
    by simp_all
  from listRepos_Inr [OF run] assms obtain u w1 r rest repos filtered limited total where
    u: "getUsername e c w = (Inr u, w1)" and up: "upstream w1 = Responds r # rest" and
    body: "content r = Some repos" and
    fl: "filter_js (language_matches lc lang) repos = Inr filtered" and
    sl: "slice_js filtered (dflt (limit a) 30) = Inr limited" and
    len: "length_js limited = Inr total" and
    res: "res = JObj [(''total'', total), (''repos'', limited)]"
    by auto
  from filter_js_Inr [OF fl] obtain xs where
    xs: "repos = JArr xs" and f: "filtered = JArr (filter (has_language lc lang) xs)"
    by (auto simp add: language_matches_True)
  let ?kept = "take (nat (dflt (limit a) 30)) (filter (has_language lc lang) xs)"
  from sl f lim have limited: "limited = JArr ?kept"
    by (simp add: slice0_take)
  with len have total: "total = JNum (int (length ?kept))"
    by simp
  have "\<forall>x \<in> set ?kept. has_language lc lang x"
    by (auto dest: in_set_takeD)
  with u up body xs res limited total
  show "\<exists>u w1 r rest repos kept.
         getUsername e c w = (Inr u, w1) \<and> upstream w1 = Responds r # rest \<and>
         content r = Some (JArr repos) \<and>
         kept = take (nat (dflt (limit a) 30)) (filter (has_language lc lang) repos) \<and>
         res = JObj [(''total'', JNum (int (length kept))), (''repos'', JArr kept)] \<and>
         (\<forall>x \<in> set kept. has_language lc lang x)"
    by blast
next
  assume "fst (listRepos_js lc e a c w) = Inr res \<and> 0 < dflt (limit a) 30"
  then have run: "fst (listRepos_js lc e a c w) = Inr res" and lim: "0 < dflt (limit a) 30"
    by simp_all
  from listRepos_js_Inr [OF run] assms
  obtain u w1 r rest repos filtered limited total summaries where
    u: "getUsername e c w = (Inr u, w1)" and up: "upstream w1 = Responds r # rest" and
    body: "content r = Some repos" and
    fl: "filter_js (language_matches lc lang) repos = Inr filtered" and
    sl: "slice_js filtered (or_int (limit a) 30) = Inr limited" and
    len: "length_js limited = Inr total" and
    mp: "map_js repo_summary limited = Inr summaries" and
    res: "res = JObj [(''total'', total), (''repos'', summaries)]"
    by auto
  from filter_js_Inr [OF fl] obtain xs where
    xs: "repos = JArr xs" and f: "filtered = JArr (filter (has_language lc lang) xs)"
    by (auto simp add: language_matches_True)
  let ?kept = "take (nat (dflt (limit a) 30)) (filter (has_language lc lang) xs)"
  from sl f lim have limited: "limited = JArr ?kept"
    by (simp add: slice0_take or_int_positive)
  with len have total: "total = JNum (int (length ?kept))"
    by simp
  from mp limited obtain ys where ys: "summaries = JArr ys" and m: "mapE repo_summary ?kept = Inr ys"
    by (auto split: sum.splits)
  have "\<forall>s \<in> set ys. has_language lc lang s"
  proof
    fix s assume "s \<in> set ys"
    from mapE_set [OF m this] obtain x where "x \<in> set ?kept" and "repo_summary x = Inr s"
      by blast
    moreover from this have "has_language lc lang x"
      by (auto dest: in_set_takeD)
    ultimately show "has_language lc lang s"
      by (auto intro: repo_summary_has_language)
  qed
  with u up body xs res total ys m
  show "\<exists>u w1 r rest repos kept summaries.
         getUsername e c w = (Inr u, w1) \<and> upstream w1 = Responds r # rest \<and>
         content r = Some (JArr repos) \<and>
         kept = take (nat (dflt (limit a) 30)) (filter (has_language lc lang) repos) \<and>
         mapE repo_summary kept = Inr summaries \<and>
         res = JObj [(''total'', JNum (int (length kept))), (''repos'', JArr summaries)] \<and>
         (\<forall>s \<in> set summaries. has_language lc lang s)"
    by blast
qed

lemma listRepos_language_filter_example:
  "language (no_args\<lparr>language := Some ''go'', limit := Some 1\<rparr>) = Some ''go'' \<and>
   fst (listRepos ascii_lower octo_env (no_args\<lparr>language := Some ''go'', limit := Some 1\<rparr>) no_context
     (fresh [answer 200 (JArr
        [JObj [(''name'', JStr ''a''), (''language'', JStr ''Python'')],
         JObj [(''name'', JStr ''b''), (''language'', JNull)],
         JObj [(''name'', JStr ''c''), (''language'', JStr ''Go'')],
         JObj [(''name'', JStr ''d''), (''language'', JStr ''GO'')]])])) =
     Inr (JObj [(''total'', JNum 1),
                (''repos'', JArr [JObj [(''name'', JStr ''c''), (''language'', JStr ''Go'')]])]) \<and>
   has_language ascii_lower ''go'' (JObj [(''name'', JStr ''c''), (''language'', JStr ''Go'')]) \<and>
   fst (listRepos_js ascii_lower octo_env (no_args\<lparr>language := Some ''go'', limit := Some 1\<rparr>) no_context
     (fresh [answer 200 (JArr
        [JObj [(''name'', JStr ''a''), (''language'', JStr ''Python'')],
         JObj [(''name'', JStr ''b''), (''language'', JNull)],
         JObj [(''name'', JStr ''c''), (''language'', JStr ''Go'')],
         JObj [(''name'', JStr ''d''), (''language'', JStr ''GO'')]])])) =
     Inr (JObj [(''total'', JNum 1),
       (''repos'', JArr
          [JObj [(''name'', JStr ''c''), (''full_name'', JUndefined), (''description'', JUndefined),
                 (''stars'', JUndefined), (''forks'', JUndefined), (''language'', JStr ''Go''),
                 (''updated'', JUndefined), (''url'', JUndefined), (''private'', JUndefined)]])]) \<and>
   has_language ascii_lower ''go''
     (JObj [(''name'', JStr ''c''), (''full_name'', JUndefined), (''description'', JUndefined),
            (''stars'', JUndefined), (''forks'', JUndefined), (''language'', JStr ''Go''),
            (''updated'', JUndefined), (''url'', JUndefined), (''private'', JUndefined)])"
proof -
  let ?a = "no_args\<lparr>language := Some ''go'', limit := Some 1\<rparr>"
  let ?w = "fresh [answer 200 (JArr
        [JObj [(''name'', JStr ''a''), (''language'', JStr ''Python'')],
         JObj [(''name'', JStr ''b''), (''language'', JNull)],
         JObj [(''name'', JStr ''c''), (''language'', JStr ''Go'')],
         JObj [(''name'', JStr ''d''), (''language'', JStr ''GO'')]])]"
  let ?c = "JObj [(''name'', JStr ''c''), (''language'', JStr ''Go'')]"
  let ?res = "JObj [(''total'', JNum 1), (''repos'', JArr [?c])]"
  have lang: "language ?a = Some ''go''" and nonempty: "''go'' \<noteq> []"
    by (simp_all add: no_args_def)
  have run: "fst (listRepos ascii_lower octo_env ?a no_context ?w) = Inr ?res"
    by (simp add: listRepos_def language_matches_def getUsername_def run_defs and_then_def
        octo_env_def no_args_def fresh_def answer_def ok_def slice0_def ascii_lower_def
        lower_char_def char_of_def bit_Suc_0_iff)
  have lim: "0 \<le> dflt (limit ?a) 30"
    by (simp add: no_args_def)
  from listRepos_language_filter [OF lang nonempty, of ascii_lower octo_env no_context ?w ?res] run lim
  obtain kept where "?res = JObj [(''total'', JNum (int (length kept))), (''repos'', JArr kept)]"
    and all: "\<forall>x \<in> set kept. has_language ascii_lower ''go'' x"
    by blast
  then have "kept = [?c]"
    by simp
  with all have ts: "has_language ascii_lower ''go'' ?c"
    by simp
  let ?s = "JObj [(''name'', JStr ''c''), (''full_name'', JUndefined), (''description'', JUndefined),
            (''stars'', JUndefined), (''forks'', JUndefined), (''language'', JStr ''Go''),
            (''updated'', JUndefined), (''url'', JUndefined), (''private'', JUndefined)]"
  let ?res_js = "JObj [(''total'', JNum 1), (''repos'', JArr [?s])]"
  have run_js: "fst (listRepos_js ascii_lower octo_env ?a no_context ?w) = Inr ?res_js"
    by (simp add: listRepos_js_def repo_summary_def language_matches_def getUsername_js_def
        getUsername_def run_defs and_then_def octo_env_def no_args_def fresh_def answer_def
        ok_def slice0_def ascii_lower_def lower_char_def char_of_def bit_Suc_0_iff)
  have lim_js: "0 < dflt (limit ?a) 30"
    by (simp add: no_args_def)
  from listRepos_language_filter [OF lang nonempty, of ascii_lower octo_env no_context ?w ?res_js,
    THEN conjunct2, rule_format, OF conjI [OF run_js lim_js]]
  obtain kept' :: "jsval list" and summaries where
    "?res_js = JObj [(''total'', JNum (int (length kept'))), (''repos'', JArr summaries)]"
    and all_js: "\<forall>x \<in> set summaries. has_language ascii_lower ''go'' x"
    by blast
  then have "summaries = [?s]"
    by simp
  with all_js have js: "has_language ascii_lower ''go'' ?s"
    by simp
  from lang run ts run_js js show ?thesis
    by blast
qed

text \<open>
  C8. The claim holds of the api module for every limit that is not negative, and of
  index.js for every limit that is omitted or positive (the lemma above). At limit 0
  index.js slices at \<^verbatim>\<open>args.limit || 30\<close>: it returns the matching repository where
  the first 0 elements of the filtered list are none, as the api module, which slices at
  \<^verbatim>\<open>limit\<close>, returns on the same input.
\<close>

theorem listRepos_js_limit_zero:
  "fst (listRepos_js toLowerCase octo_env (no_args\<lparr>language := Some ''Go'', limit := Some 0\<rparr>) no_context
     (fresh [answer 200 (JArr [JObj [(''name'', JStr ''c''), (''language'', JStr ''Go'')]])])) =
     Inr (JObj [(''total'', JNum 1),
       (''repos'', JArr
          [JObj [(''name'', JStr ''c''), (''full_name'', JUndefined), (''description'', JUndefined),
                 (''stars'', JUndefined), (''forks'', JUndefined), (''language'', JStr ''Go''),
                 (''updated'', JUndefined), (''url'', JUndefined), (''private'', JUndefined)]])]) \<and>
   fst (listRepos toLowerCase octo_env (no_args\<lparr>language := Some ''Go'', limit := Some 0\<rparr>) no_context
     (fresh [answer 200 (JArr [JObj [(''name'', JStr ''c''), (''language'', JStr ''Go'')]])])) =
     Inr (JObj [(''total'', JNum 0), (''repos'', JArr [])])"
  by (simp add: listRepos_js_def listRepos_def repo_summary_def language_matches_def
      getUsername_js_def getUsername_def run_defs and_then_def octo_env_def no_args_def fresh_def
      answer_def ok_def slice0_def)

section \<open>The claims about commits and search hits\<close>

text \<open>
  C9 (as amended). For every get\_recent\_activity that succeeds (either rendering, the two
  are the same function), the upstream body is an array of commits, the result has one
  entry per commit in the same order, each raw message is a string, and the entry's
  message is the raw message up to, and without, its first line feed (U+000A), the
  character the code splits on; every other character before it, a carriage return
  included, is kept. A raw message \<^verbatim>\<open>"fix bug\n\nlonger body"\<close> yields
  \<^verbatim>\<open>"fix bug"\<close>.
\<close>

theorem commit_message_first_line:
  assumes "fst (getRecentActivity e a c w) = Inr res"
  shows "\<exists>u w1 r rest commits entries.
     getUsername e c w = (Inr u, w1) \<and> upstream w1 = Responds r # rest \<and>
     content r = Some (JArr commits) \<and> getp res ''commits'' = Inr (JArr entries) \<and>
     length entries = length commits \<and>
     (\<forall>i < length commits. \<exists>cm m.
        getp (commits ! i) ''commit'' = Inr cm \<and> getp cm ''message'' = Inr (JStr m) \<and>
        getp (entries ! i) ''message'' = Inr (JStr (takeWhile (\<lambda>ch. ch \<noteq> CHR 0x0A) m))) \<and>
     getRecentActivity_js e a c w = getRecentActivity e a c w"
proof -
  from getRecentActivity_Inr [OF assms] obtain u w1 r rest body entries where
    u: "getUsername e c w = (Inr u, w1)" and up: "upstream w1 = Responds r # rest" and
    body: "content r = Some body" and mp: "map_js commit_entry body = Inr entries" and
    res: "res = JObj [(''repo'', JStr (tostr u @ ''/'' @ tostr (sv (repo a)))), (''commits'', entries)]"
    by blast
  from map_js_Inr [OF mp] obtain commits es where
    commits: "body = JArr commits" and es: "entries = JArr es" and
    m: "mapE commit_entry commits = Inr es"
    by blast
  have len: "length es = length commits"
    using m by (rule mapE_length)
  have each: "\<forall>i < length commits. \<exists>cm m.
        getp (commits ! i) ''commit'' = Inr cm \<and> getp cm ''message'' = Inr (JStr m) \<and>
        getp (es ! i) ''message'' = Inr (JStr (takeWhile (\<lambda>ch. ch \<noteq> CHR 0x0A) m))"
  proof (intro allI impI)
    fix i assume "i < length commits"
    then have "commit_entry (commits ! i) = Inr (es ! i)"
      using m by (simp add: mapE_nth)
    then show "\<exists>cm m.
        getp (commits ! i) ''commit'' = Inr cm \<and> getp cm ''message'' = Inr (JStr m) \<and>
        getp (es ! i) ''message'' = Inr (JStr (takeWhile (\<lambda>ch. ch \<noteq> CHR 0x0A) m))"
      by (rule commit_entry_message)
  qed
  have field: "getp res ''commits'' = Inr (JArr es)"
    using res es by simp
  have js: "getRecentActivity_js e a c w = getRecentActivity e a c w"
    unfolding getRecentActivity_js_def getRecentActivity_def getUsername_js_eq authHeaders_eq
    by (rule refl)
  from u up body commits field len each js show ?thesis
    by blast
qed
theorem commit_message_first_line_witness:
  "fst (getRecentActivity octo_env demo_args no_context
     (fresh [answer 200 (JArr
        [JObj [(''sha'', JStr ''0123456789abcdef''),
               (''commit'', JObj [(''message'', JStr (''fix bug'' @ [CHR 0x0A, CHR 0x0A] @ ''longer body'')),
                                  (''author'', JObj [(''name'', JStr ''Ann''), (''date'', JStr ''2024-01-01'')])]),
               (''html_url'', JStr ''https://example.org/c'')]])])) =
     Inr (JObj [(''repo'', JStr ''octo/widget''),
                (''commits'', JArr
                   [JObj [(''sha'', JStr ''0123456''), (''message'', JStr ''fix bug''),
                          (''author'', JStr ''Ann''), (''date'', JStr ''2024-01-01''),
                          (''url'', JStr ''https://example.org/c'')]])])"
  using commit_message_first_line
    [of octo_env demo_args no_context
        "fresh [answer 200 (JArr
          [JObj [(''sha'', JStr ''0123456789abcdef''),
                 (''commit'', JObj [(''message'', JStr (''fix bug'' @ [CHR 0x0A, CHR 0x0A] @ ''longer body'')),
                                    (''author'', JObj [(''name'', JStr ''Ann''), (''date'', JStr ''2024-01-01'')])]),
                 (''html_url'', JStr ''https://example.org/c'')]])]"
        "JObj [(''repo'', JStr ''octo/widget''),
                (''commits'', JArr
                   [JObj [(''sha'', JStr ''0123456''), (''message'', JStr ''fix bug''),
                          (''author'', JStr ''Ann''), (''date'', JStr ''2024-01-01''),
                          (''url'', JStr ''https://example.org/c'')]])]"]
  by (simp add: getRecentActivity_def commit_entry_def first_line_def getUsername_def run_defs
      and_then_def octo_env_def demo_args_def no_args_def fresh_def answer_def ok_def)

text \<open>
  C9 as stated fails: the carriage return is a line-break character, and a message whose
  first line ends in carriage return and line feed keeps the carriage return.
\<close>

theorem commit_message_keeps_carriage_return:
  "fst (getRecentActivity octo_env demo_args no_context
     (fresh [answer 200 (JArr
        [JObj [(''sha'', JStr ''0123456789abcdef''),
               (''commit'', JObj [(''message'', JStr (''fix bug'' @ [CHR 0x0D, CHR 0x0A] @ ''longer body'')),
                                  (''author'', JObj [(''name'', JStr ''Ann''), (''date'', JStr ''2024-01-01'')])]),
               (''html_url'', JStr ''https://example.org/c'')]])])) =
     Inr (JObj [(''repo'', JStr ''octo/widget''),
                (''commits'', JArr
                   [JObj [(''sha'', JStr ''0123456''), (''message'', JStr (''fix bug'' @ [CHR 0x0D])),
                          (''author'', JStr ''Ann''), (''date'', JStr ''2024-01-01''),
                          (''url'', JStr ''https://example.org/c'')]])])"
  by (simp add: getRecentActivity_def commit_entry_def first_line_def getUsername_def run_defs
      and_then_def octo_env_def demo_args_def no_args_def fresh_def answer_def ok_def)

text \<open>
  C10. For every search\_repos of the api module that succeeds, every repository of the
  returned \<open>repos\<close> has \<open>forks\<close> 0, \<open>updated\<close> the empty string and \<open>private\<close> false,
  whatever the upstream item holds.
\<close>
theorem search_hit_placeholders:
  assumes "fst (searchRepos e a c w) = Inr res"
  shows "\<exists>t hits. res = JObj [(''total'', t), (''repos'', JArr hits)] \<and>
     (\<forall>h \<in> set hits. getp h ''forks'' = Inr (JNum 0) \<and> getp h ''updated'' = Inr (JStr []) \<and>
        getp h ''private'' = Inr (JBool False))"
proof -
  from searchRepos_Inr [OF assms] obtain t items repos where
    mp: "map_js search_hit (or_js items (JArr [])) = Inr repos" and
    res: "res = JObj [(''total'', t), (''repos'', repos)]"
    by blast
  from map_js_Inr [OF mp] obtain xs hits where
    hits: "repos = JArr hits" and m: "mapE search_hit xs = Inr hits"
    by blast
  have "\<forall>h \<in> set hits. getp h ''forks'' = Inr (JNum 0) \<and> getp h ''updated'' = Inr (JStr []) \<and>
        getp h ''private'' = Inr (JBool False)"
  proof
    fix h assume "h \<in> set hits"
    from mapE_set [OF m this] obtain x where "search_hit x = Inr h"
      by blast
    then show "getp h ''forks'' = Inr (JNum 0) \<and> getp h ''updated'' = Inr (JStr []) \<and>
        getp h ''private'' = Inr (JBool False)"
      by (rule search_hit_constants)
  qed
  with res hits show ?thesis by blast
qed
theorem search_hit_placeholders_witness:
  "fst (searchRepos octo_env demo_args no_context
     (fresh [answer 200 (JObj [(''total_count'', JNum 1),
        (''items'', JArr [JObj [(''name'', JStr ''tool''), (''forks_count'', JNum 7),
                                (''updated_at'', JStr ''2024-01-01''), (''private'', JBool True)]])])])) =
     Inr (JObj [(''total'', JNum 1),
       (''repos'', JArr
          [JObj [(''name'', JStr ''tool''), (''full_name'', JUndefined), (''description'', JUndefined),
                 (''stars'', JUndefined), (''language'', JUndefined), (''url'', JUndefined),
                 (''forks'', JNum 0), (''updated'', JStr []), (''private'', JBool False)]])])"
  using search_hit_placeholders
    [of octo_env demo_args no_context
        "fresh [answer 200 (JObj [(''total_count'', JNum 1),
          (''items'', JArr [JObj [(''name'', JStr ''tool''), (''forks_count'', JNum 7),
                                  (''updated_at'', JStr ''2024-01-01''), (''private'', JBool True)]])])]"
        "JObj [(''total'', JNum 1),
          (''repos'', JArr
            [JObj [(''name'', JStr ''tool''), (''full_name'', JUndefined), (''description'', JUndefined),
                   (''stars'', JUndefined), (''language'', JUndefined), (''url'', JUndefined),
                   (''forks'', JNum 0), (''updated'', JStr []), (''private'', JBool False)]])]"]
  by (simp add: searchRepos_def search_hit_def getUsername_def run_defs and_then_def or_js_def
      octo_env_def demo_args_def no_args_def fresh_def answer_def ok_def)

section \<open>Properties of create\_pull\_request\<close>

lemma createPullRequest_invalid:
  assumes "getUsername e c w = (Inr u, w1)"
    and "\<not> truthy (or_js (sv (owner a)) u) \<or> \<not> truthy (sv (repo a)) \<or> \<not> truthy (sv (title a)) \<or>
         \<not> truthy (sv (head a))"
  shows "createPullRequest e a c w = (Inl (Error ''owner, repo, title, and head are required''), w1)"
  using assms by (auto simp add: createPullRequest_def Let_def await_def throw_def)

lemma createPullRequest_js_invalid:
  assumes "getUsername e c w = (Inr u, w1)"
    and "\<not> truthy (sv (owner a)) \<or> \<not> truthy (sv (repo a)) \<or> \<not> truthy (sv (title a)) \<or>
         \<not> truthy (sv (head a))"
  shows "createPullRequest_js e a c w = (Inl (Error ''owner, repo, title, and head are required''), w1)"
  using assms by (auto simp add: createPullRequest_js_def getUsername_js_eq await_def throw_def)

lemma createPullRequest_log:
  assumes "getUsername e c w = (Inr u, w1)"
    and "truthy (or_js (sv (owner a)) u)" and "truthy (sv (repo a))" and "truthy (sv (title a))"
    and "truthy (sv (head a))"
  shows "log (snd (createPullRequest e a c w)) =
    log w1 @ [post_request (pulls_url (or_js (sv (owner a)) u) a) (getAuthHeaders e c) (pr_body a)]"
  using assms
  by (simp add: createPullRequest_def Let_def run_defs
      split: list.split outcome.split option.split sum.split)

lemma createPullRequest_js_log:
  assumes "getUsername e c w = (Inr u, w1)"
    and "truthy (sv (owner a))" and "truthy (sv (repo a))" and "truthy (sv (title a))"
    and "truthy (sv (head a))"
  shows "log (snd (createPullRequest_js e a c w)) =
    log w1 @ [post_request (pulls_url (sv (owner a)) a) (getAuthHeaders e c) (pr_body a)]"
  using assms
  by (simp add: createPullRequest_js_def getUsername_js_eq authHeaders_eq run_defs
      split: list.split outcome.split option.split sum.split)

lemma createPullRequest_js_eq:
  assumes "truthy (sv (owner a))"
  shows "createPullRequest_js e a c = createPullRequest e a c"
proof -
  have own: "\<And>u. or_js (sv (owner a)) u = sv (owner a)"
    using assms by (simp add: or_js_def)
  show ?thesis
    unfolding createPullRequest_js_def createPullRequest_def getUsername_js_eq authHeaders_eq
      Let_def own
    by (rule refl)
qed

section \<open>The claim about create\_pull\_request\<close>

text \<open>
  C6 (as amended). Once the username is resolved: in the api module, a
  create\_pull\_request without owner sends its POST to
  \<^verbatim>\<open>/repos/<acting username>/<repo>/pulls\<close>, while in index.js the owner is required
  and its absence raises the validation error with nothing sent; with an owner, both
  renderings send the POST to that owner's repository. The body of the POST carries
  \<open>base\<close> \<^verbatim>\<open>main\<close> when base is omitted, the given base otherwise. In both renderings
  an absent or empty title or head raises the validation error with nothing sent.
\<close>

theorem createPullRequest_owner_and_base:
  assumes "getUsername e c w = (Inr u, w1)"
  shows
   "(\<not> truthy (sv (owner a)) \<and> truthy u \<and> truthy (sv (repo a)) \<and> truthy (sv (title a)) \<and>
       truthy (sv (head a)) \<longrightarrow>
       log (snd (createPullRequest e a c w)) =
         log w1 @ [post_request (GITHUB_API @ ''/repos/'' @ tostr u @ ''/'' @ tostr (sv (repo a)) @ ''/pulls'')
                     (getAuthHeaders e c) (pr_body a)]) \<and>
    (\<not> truthy (sv (owner a)) \<longrightarrow>
       createPullRequest_js e a c w =
         (Inl (Error ''owner, repo, title, and head are required''), w1)) \<and>
    (truthy (sv (owner a)) \<and> truthy (sv (repo a)) \<and> truthy (sv (title a)) \<and> truthy (sv (head a)) \<longrightarrow>
       log (snd (createPullRequest e a c w)) =
         log w1 @ [post_request (GITHUB_API @ ''/repos/'' @ tostr (sv (owner a)) @ ''/'' @ tostr (sv (repo a)) @ ''/pulls'')
                     (getAuthHeaders e c) (pr_body a)] \<and>
       createPullRequest_js e a c w = createPullRequest e a c w) \<and>
    (base a = None \<longrightarrow> getp (pr_body a) ''base'' = Inr (JStr ''main'')) \<and>
    (\<forall>b. base a = Some b \<longrightarrow> getp (pr_body a) ''base'' = Inr (JStr b)) \<and>
    (\<not> truthy (sv (title a)) \<or> \<not> truthy (sv (head a)) \<longrightarrow>
       createPullRequest e a c w =
         (Inl (Error ''owner, repo, title, and head are required''), w1) \<and>
       createPullRequest_js e a c w =
         (Inl (Error ''owner, repo, title, and head are required''), w1))"
proof -
  have fallback: "\<not> truthy (sv (owner a)) \<and> truthy u \<and> truthy (sv (repo a)) \<and> truthy (sv (title a)) \<and>
       truthy (sv (head a)) \<longrightarrow>
       log (snd (createPullRequest e a c w)) =
         log w1 @ [post_request (GITHUB_API @ ''/repos/'' @ tostr u @ ''/'' @ tostr (sv (repo a)) @ ''/pulls'')
                     (getAuthHeaders e c) (pr_body a)]"
  proof
    assume h: "\<not> truthy (sv (owner a)) \<and> truthy u \<and> truthy (sv (repo a)) \<and> truthy (sv (title a)) \<and>
       truthy (sv (head a))"
    then have own: "or_js (sv (owner a)) u = u"
      by (simp add: or_js_def)
    from h own createPullRequest_log [OF assms, of a, unfolded own]
    show "log (snd (createPullRequest e a c w)) =
         log w1 @ [post_request (GITHUB_API @ ''/repos/'' @ tostr u @ ''/'' @ tostr (sv (repo a)) @ ''/pulls'')
                     (getAuthHeaders e c) (pr_body a)]"
      by (simp add: pulls_url_def)
  qed
  have js_owner: "\<not> truthy (sv (owner a)) \<longrightarrow>
       createPullRequest_js e a c w =
         (Inl (Error ''owner, repo, title, and head are required''), w1)"
    using createPullRequest_js_invalid [OF assms, of a] by blast
  have given: "truthy (sv (owner a)) \<and> truthy (sv (repo a)) \<and> truthy (sv (title a)) \<and> truthy (sv (head a)) \<longrightarrow>
       log (snd (createPullRequest e a c w)) =
         log w1 @ [post_request (GITHUB_API @ ''/repos/'' @ tostr (sv (owner a)) @ ''/'' @ tostr (sv (repo a)) @ ''/pulls'')
                     (getAuthHeaders e c) (pr_body a)] \<and>
       createPullRequest_js e a c w = createPullRequest e a c w"
  proof
    assume h: "truthy (sv (owner a)) \<and> truthy (sv (repo a)) \<and> truthy (sv (title a)) \<and> truthy (sv (head a))"
    then have eq: "createPullRequest_js e a c w = createPullRequest e a c w"
      by (simp add: createPullRequest_js_eq)
    from h createPullRequest_js_log [OF assms, of a]
    have "log (snd (createPullRequest_js e a c w)) =
         log w1 @ [post_request (pulls_url (sv (owner a)) a) (getAuthHeaders e c) (pr_body a)]"
      by blast
    with eq show "log (snd (createPullRequest e a c w)) =
         log w1 @ [post_request (GITHUB_API @ ''/repos/'' @ tostr (sv (owner a)) @ ''/'' @ tostr (sv (repo a)) @ ''/pulls'')
                     (getAuthHeaders e c) (pr_body a)] \<and>
       createPullRequest_js e a c w = createPullRequest e a c w"
      by (simp add: pulls_url_def)
  qed
  have main: "base a = None \<longrightarrow> getp (pr_body a) ''base'' = Inr (JStr ''main'')"
    by (simp add: pr_body_def)
  have other: "\<forall>b. base a = Some b \<longrightarrow> getp (pr_body a) ''base'' = Inr (JStr b)"
    by (simp add: pr_body_def)
  have required: "\<not> truthy (sv (title a)) \<or> \<not> truthy (sv (head a)) \<longrightarrow>
       createPullRequest e a c w =
         (Inl (Error ''owner, repo, title, and head are required''), w1) \<and>
       createPullRequest_js e a c w =
         (Inl (Error ''owner, repo, title, and head are required''), w1)"
    using createPullRequest_invalid [OF assms, of a] createPullRequest_js_invalid [OF assms, of a]
    by blast
  from fallback js_owner given main other required show ?thesis
    by (intro conjI)
qed

theorem createPullRequest_owner_and_base_witness:
  "log (snd (createPullRequest octo_env (demo_args\<lparr>owner := None\<rparr>) no_context (fresh []))) =
     [post_request ''https://api.github.com/repos/octo/widget/pulls'' base_headers
        (JObj [(''title'', JStr ''Fix it''), (''body'', JStr []), (''head'', JStr ''dev''),
               (''base'', JStr ''main'')])] \<and>
   createPullRequest_js octo_env (demo_args\<lparr>owner := None\<rparr>) no_context (fresh []) =
     (Inl (Error ''owner, repo, title, and head are required''), fresh []) \<and>
   log (snd (createPullRequest_js octo_env (demo_args\<lparr>base := Some ''release''\<rparr>) no_context (fresh []))) =
     [post_request ''https://api.github.com/repos/acme/widget/pulls'' base_headers
        (JObj [(''title'', JStr ''Fix it''), (''body'', JStr []), (''head'', JStr ''dev''),
               (''base'', JStr ''release'')])] \<and>
   createPullRequest octo_env (demo_args\<lparr>head := Some []\<rparr>) no_context (fresh []) =
     (Inl (Error ''owner, repo, title, and head are required''), fresh [])"
  using createPullRequest_owner_and_base
      [of octo_env no_context "fresh []" "JStr ''octo''" "fresh []" "demo_args\<lparr>owner := None\<rparr>"]
    createPullRequest_owner_and_base
      [of octo_env no_context "fresh []" "JStr ''octo''" "fresh []" "demo_args\<lparr>base := Some ''release''\<rparr>"]
    createPullRequest_owner_and_base
      [of octo_env no_context "fresh []" "JStr ''octo''" "fresh []" "demo_args\<lparr>head := Some []\<rparr>"]
  by (simp add: getUsername_env octo_env_def demo_args_def no_args_def no_context_def fresh_def
      pr_body_def or_js_def getAuthHeaders_def github_of_def GITHUB_API_def)

text \<open>
  C6 as stated fails: in index.js a create\_pull\_request without owner does not fall back
  to the acting username; it raises the validation error and sends nothing.
\<close>

theorem createPullRequest_js_requires_owner:
  "createPullRequest_js octo_env (demo_args\<lparr>owner := None\<rparr>) no_context
     (fresh [answer 201 (JObj [(''number'', JNum 7)])]) =
     (Inl (Error ''owner, repo, title, and head are required''),
      fresh [answer 201 (JObj [(''number'', JNum 7)])])"
  by (simp add: createPullRequest_js_def getUsername_js_def await_def throw_def return_js_def
      octo_env_def demo_args_def no_args_def)

section \<open>The two renderings side by side\<close>

lemma getRepo_js_eq: "getRepo_js e a c = getRepo e a c"
  unfolding getRepo_js_def getRepo_def authHeaders_eq by (rule refl)

lemma getRecentActivity_js_eq: "getRecentActivity_js e a c = getRecentActivity e a c"
  unfolding getRecentActivity_js_def getRecentActivity_def getUsername_js_eq authHeaders_eq
  by (rule refl)

lemma listRepos_js_world: "snd (listRepos_js lc e a c w) = snd (listRepos lc e a c w)"
  by (simp add: listRepos_js_def listRepos_def getUsername_js_eq authHeaders_eq run_defs
      split: prod.split sum.split list.split outcome.split option.split)

lemma checkCIStatus_js_world: "snd (checkCIStatus_js e a c w) = snd (checkCIStatus e a c w)"
  by (simp add: checkCIStatus_js_def checkCIStatus_def authHeaders_eq run_defs
      split: prod.split sum.split list.split outcome.split option.split)

lemma createIssue_js_world: "snd (createIssue_js e a c w) = snd (createIssue e a c w)"
  by (simp add: createIssue_js_def createIssue_def getUsername_js_eq authHeaders_eq run_defs
      split: prod.split sum.split list.split outcome.split option.split)

lemma createRepo_js_world: "snd (createRepo_js e a c w) = snd (createRepo e a c w)"
  by (simp add: createRepo_js_def createRepo_def getUsername_js_eq authHeaders_eq run_defs
      split: prod.split sum.split list.split outcome.split option.split)

lemma searchRepos_js_world: "snd (searchRepos_js e a c w) = snd (searchRepos e a c w)"
  by (simp add: searchRepos_js_def searchRepos_def getUsername_js_eq authHeaders_eq run_defs
      split: prod.split sum.split list.split outcome.split option.split)

text \<open>A callback that fails in the api module fails in index.js with the same error: the
  two read the same properties in the same order.\<close>

lemma mapE_cong_set: "\<forall>x \<in> set xs. f x = g x \<Longrightarrow> mapE f xs = mapE g xs"
  by (induction xs) (auto split: sum.splits)

lemma mapE_Inl_transfer:
  assumes "\<And>x err. f x = Inl err \<Longrightarrow> g x = Inl err"
    and "\<And>x y. f x = Inr y \<Longrightarrow> \<exists>y'. g x = Inr y'"
  shows "mapE f xs = Inl err \<Longrightarrow> mapE g xs = Inl err"
proof (induction xs)
  case Nil
  then show ?case by simp
next
  case (Cons x xs)
  show ?case
  proof (cases "f x")
    case (Inl e)
    with Cons.prems assms(1) [of x e] show ?thesis by simp
  next
    case (Inr y)
    from assms(2) [OF Inr] obtain y' where g: "g x = Inr y'" by blast
    from Cons.prems Inr have "mapE f xs = Inl err"
      by (simp split: sum.splits)
    from Cons.IH [OF this] g show ?thesis by simp
  qed
qed

lemma map_js_Inl_transfer:
  assumes "\<And>x err. f x = Inl err \<Longrightarrow> g x = Inl err"
    and "\<And>x y. f x = Inr y \<Longrightarrow> \<exists>y'. g x = Inr y'"
  shows "map_js f v = Inl err \<Longrightarrow> map_js g v = Inl err"
  using mapE_Inl_transfer [of f g, OF assms]
  by (cases v) (auto split: sum.splits)

lemma slice_js_Inl_any: "slice_js v n = Inl err \<Longrightarrow> slice_js v m = Inl err"
  by (cases v) auto

lemma slice_js_Inr_length: "slice_js v n = Inr x \<Longrightarrow> \<exists>k. length_js x = Inr (JNum k)"
  by (cases v) auto

lemma workflow_run_js_Inl: "workflow_run x = Inl err \<Longrightarrow> workflow_run_js x = Inl err"
  by (auto simp add: workflow_run_def workflow_run_js_def and_then_def split: sum.splits)

lemma workflow_run_js_Inr: "workflow_run x = Inr y \<Longrightarrow> \<exists>y'. workflow_run_js x = Inr y'"
  by (auto simp add: workflow_run_def workflow_run_js_def and_then_def split: sum.splits)

lemma workflow_run_js_eq:
  assumes "\<And>sha. getp x ''head_sha'' = Inr sha \<Longrightarrow> \<not> nullish sha"
  shows "workflow_run_js x = workflow_run x"
proof (cases "getp x ''head_sha''")
  case (Inl err)
  then show ?thesis
    by (simp add: workflow_run_def workflow_run_js_def and_then_def split: sum.splits)
next
  case (Inr sha)
  with assms have "\<not> nullish sha" by simp
  then have "\<And>short. opt_substring07 sha = Inr short \<Longrightarrow> or_js short (JStr []) = short"
    by (cases sha) (auto simp add: nullish_def or_js_def)
  with Inr show ?thesis
    by (simp add: workflow_run_def workflow_run_js_def and_then_def split: sum.splits)
qed

lemma search_hit_js_Inl: "search_hit x = Inl err \<Longrightarrow> search_hit_js x = Inl err"
  by (auto simp add: search_hit_def search_hit_js_def and_then_def split: sum.splits)

lemma search_hit_js_Inr: "search_hit x = Inr y \<Longrightarrow> \<exists>y'. search_hit_js x = Inr y'"
  by (auto simp add: search_hit_def search_hit_js_def and_then_def split: sum.splits)

lemma created_repo_js_Inl: "created_repo x = Inl err \<Longrightarrow> created_repo_js x = Inl err"
  by (cases x) (simp_all add: created_repo_def created_repo_js_def and_then_def)

text \<open>Where the two renderings return the same outcome.\<close>

lemma createIssue_js_eq:
  assumes "\<And>u w1 r rest. getUsername e c w = (Inr u, w1) \<Longrightarrow> truthy (sv (title a)) \<Longrightarrow>
    upstream w1 = Responds r # rest \<Longrightarrow> ok r"
  shows "createIssue_js e a c w = createIssue e a c w"
proof (cases "truthy (sv (title a))")
  case False
  then show ?thesis
    by (simp add: createIssue_no_title createIssue_js_no_title)
next
  case True
  obtain ru w1 where g: "getUsername e c w = (ru, w1)"
    by (cases "getUsername e c w")
  show ?thesis
  proof (cases ru)
    case (Inl err)
    with g show ?thesis
      by (simp add: createIssue_js_def createIssue_def getUsername_js_eq await_def)
  next
    case (Inr u)
    show ?thesis
    proof (cases "upstream w1")
      case Nil
      with g Inr True show ?thesis
        by (simp add: createIssue_js_def createIssue_def getUsername_js_eq authHeaders_eq run_defs)
    next
      case (Cons x rest)
      show ?thesis
      proof (cases x)
        case Fails
        with g Inr True Cons show ?thesis
          by (simp add: createIssue_js_def createIssue_def getUsername_js_eq authHeaders_eq run_defs)
      next
        case (Responds r)
        with assms [of u w1 r rest] g Inr True Cons have "ok r" by simp
        with g Inr True Cons Responds show ?thesis
          by (simp add: createIssue_js_def createIssue_def getUsername_js_eq authHeaders_eq run_defs)
      qed
    qed
  qed
qed


lemma listRepos_js_eq_on_error:
  assumes "fst (listRepos lc e a c w) = Inl err"
  shows "listRepos_js lc e a c w = listRepos lc e a c w"
proof -
  note defs = listRepos_js_def listRepos_def getUsername_js_eq authHeaders_eq run_defs
  obtain ru w1 where g: "getUsername e c w = (ru, w1)"
    by (cases "getUsername e c w")
  show ?thesis
  proof (cases ru)
    case (Inl err)
    with g show ?thesis by (simp add: defs)
  next
    case (Inr u)
    show ?thesis
    proof (cases "upstream w1")
      case Nil
      with g Inr show ?thesis by (simp add: defs)
    next
      case (Cons x rest)
      show ?thesis
      proof (cases x)
        case Fails
        with g Inr Cons show ?thesis by (simp add: defs)
      next
        case (Responds r)
        note start = g Inr Cons Responds
        show ?thesis
        proof (cases "ok r")
          case False
          with start show ?thesis by (simp add: defs)
        next
          case True
          show ?thesis
          proof (cases "content r")
            case None
            with start True show ?thesis by (simp add: defs)
          next
            case (Some repos)
            let ?f = "if truthy (sv (language a))
              then filter_js (language_matches lc (tostr (sv (language a)))) repos else Inr repos"
            show ?thesis
            proof (cases ?f)
              case (Inl e1)
              with start True Some show ?thesis by (simp add: defs)
            next
              case f: (Inr filtered)
              show ?thesis
              proof (cases "slice_js filtered (dflt (limit a) 30)")
                case (Inl e2)
                then have "slice_js filtered (or_int (limit a) 30) = Inl e2"
                  by (rule slice_js_Inl_any)
                with start True Some f Inl show ?thesis by (simp add: defs)
              next
                case s: (Inr limited)
                from slice_js_Inr_length [OF s] obtain k where "length_js limited = Inr (JNum k)"
                  by blast
                with start True Some f s have "\<exists>res. fst (listRepos lc e a c w) = Inr res"
                  by (simp add: defs)
                with assms show ?thesis by simp
              qed
            qed
          qed
        qed
      qed
    qed
  qed
qed

lemma map_js_or_Inl:
  assumes "map_js f (or_js v (JArr [])) = Inl err"
  shows "\<not> nullish v \<and> map_js f v = Inl err"
  using assms by (cases "truthy v") (auto simp add: or_js_def nullish_def)

lemma checkCIStatus_js_eq_on_error:
  assumes "fst (checkCIStatus e a c w) = Inl err"
  shows "checkCIStatus_js e a c w = checkCIStatus e a c w"
proof -
  note defs = checkCIStatus_js_def checkCIStatus_def authHeaders_eq run_defs
  show ?thesis
  proof (cases "upstream w")
    case Nil
    then show ?thesis by (simp add: defs)
  next
    case (Cons x rest)
    show ?thesis
    proof (cases x)
      case Fails
      with Cons show ?thesis by (simp add: defs)
    next
      case (Responds r)
      note start = Cons Responds
      show ?thesis
      proof (cases "ok r")
        case False
        with start show ?thesis by (simp add: defs)
      next
        case True
        show ?thesis
        proof (cases "content r")
          case None
          with start True show ?thesis by (simp add: defs)
        next
          case (Some d)
          show ?thesis
          proof (cases "getp d ''workflow_runs''")
            case (Inl e1)
            with start True Some show ?thesis by (simp add: defs)
          next
            case wr: (Inr wr)
            show ?thesis
            proof (cases "map_js workflow_run (or_js wr (JArr []))")
              case (Inl e2)
              from map_js_or_Inl [OF Inl] have nn: "\<not> nullish wr"
                and "map_js workflow_run wr = Inl e2"
                by simp_all
              then have "map_js workflow_run_js wr = Inl e2"
                by (intro map_js_Inl_transfer [of workflow_run workflow_run_js])
                  (auto dest: workflow_run_js_Inl workflow_run_js_Inr)
              with start True Some wr Inl nn show ?thesis by (simp add: defs)
            next
              case (Inr runs)
              with start True Some wr have "\<exists>res. fst (checkCIStatus e a c w) = Inr res"
                by (simp add: defs)
              with assms show ?thesis by simp
            qed
          qed
        qed
      qed
    qed
  qed
qed

lemma checkCIStatus_js_eq:
  assumes "\<And>r rest d wr. upstream w = Responds r # rest \<Longrightarrow> content r = Some d \<Longrightarrow>
      getp d ''workflow_runs'' = Inr wr \<Longrightarrow>
      (nullish wr \<or> truthy wr) \<and>
      (\<forall>runs. wr = JArr runs \<longrightarrow>
         (\<forall>run \<in> set runs. \<forall>sha. getp run ''head_sha'' = Inr sha \<longrightarrow> \<not> nullish sha))"
  shows "checkCIStatus_js e a c w = checkCIStatus e a c w"
proof -
  note defs = checkCIStatus_js_def checkCIStatus_def authHeaders_eq run_defs
  show ?thesis
  proof (cases "upstream w")
    case Nil
    then show ?thesis by (simp add: defs)
  next
    case (Cons x rest)
    show ?thesis
    proof (cases x)
      case Fails
      with Cons show ?thesis by (simp add: defs)
    next
      case (Responds r)
      note start = Cons Responds
      show ?thesis
      proof (cases "ok r")
        case False
        with start show ?thesis by (simp add: defs)
      next
        case True
        show ?thesis
        proof (cases "content r")
          case None
          with start True show ?thesis by (simp add: defs)
        next
          case (Some d)
          show ?thesis
          proof (cases "getp d ''workflow_runs''")
            case (Inl e1)
            with start True Some show ?thesis by (simp add: defs)
          next
            case wr: (Inr wr)
            from assms [of r rest d wr] start Some wr
            have shape: "nullish wr \<or> truthy wr"
              and shas: "\<And>runs. wr = JArr runs \<Longrightarrow>
                \<forall>run \<in> set runs. \<forall>sha. getp run ''head_sha'' = Inr sha \<longrightarrow> \<not> nullish sha"
              by simp_all
            show ?thesis
            proof (cases wr)
              case (JArr runs)
              from shas [OF JArr] have "\<forall>run \<in> set runs. workflow_run_js run = workflow_run run"
                by (auto intro: workflow_run_js_eq)
              then have "mapE workflow_run_js runs = mapE workflow_run runs"
                by (rule mapE_cong_set)
              with start True Some wr JArr show ?thesis
                by (simp add: defs or_js_def nullish_def split: sum.split)
            qed (use start True Some wr shape in \<open>simp_all add: defs or_js_def nullish_def\<close>)
          qed
        qed
      qed
    qed
  qed
qed

lemma createRepo_js_eq_on_error:
  assumes "fst (createRepo e a c w) = Inl err"
  shows "createRepo_js e a c w = createRepo e a c w"
proof -
  note defs = createRepo_js_def createRepo_def getUsername_js_eq authHeaders_eq run_defs
  obtain ru w1 where g: "getUsername e c w = (ru, w1)"
    by (cases "getUsername e c w")
  show ?thesis
  proof (cases ru)
    case (Inl err)
    with g show ?thesis by (simp add: defs)
  next
    case (Inr u)
    show ?thesis
    proof (cases "truthy (sv (name a))")
      case False
      with g Inr show ?thesis by (simp add: defs)
    next
      case valid: True
      show ?thesis
      proof (cases "upstream w1")
        case Nil
        with g Inr valid show ?thesis by (simp add: defs)
      next
        case (Cons x rest)
        show ?thesis
        proof (cases x)
          case Fails
          with g Inr valid Cons show ?thesis by (simp add: defs)
        next
          case (Responds r)
          note start = g Inr valid Cons Responds
          show ?thesis
          proof (cases "ok r")
            case False
            with start show ?thesis by (simp add: defs)
          next
            case True
            show ?thesis
            proof (cases "content r")
              case None
              with start True show ?thesis by (simp add: defs)
            next
              case (Some d)
              show ?thesis
              proof (cases "created_repo d")
                case (Inl e1)
                then have "created_repo_js d = Inl e1"
                  by (rule created_repo_js_Inl)
                with start True Some Inl show ?thesis by (simp add: defs)
              next
                case (Inr res)
                with start True Some have "\<exists>res. fst (createRepo e a c w) = Inr res"
                  by (simp add: defs)
                with assms show ?thesis by simp
              qed
            qed
          qed
        qed
      qed
    qed
  qed
qed

lemma searchRepos_js_eq_on_error:
  assumes "fst (searchRepos e a c w) = Inl err"
  shows "searchRepos_js e a c w = searchRepos e a c w"
proof -
  note defs = searchRepos_js_def searchRepos_def getUsername_js_eq authHeaders_eq run_defs
  obtain ru w1 where g: "getUsername e c w = (ru, w1)"
    by (cases "getUsername e c w")
  show ?thesis
  proof (cases ru)
    case (Inl err)
    with g show ?thesis by (simp add: defs)
  next
    case (Inr u)
    show ?thesis
    proof (cases "truthy (sv (query a))")
      case False
      with g Inr show ?thesis by (simp add: defs)
    next
      case valid: True
      show ?thesis
      proof (cases "upstream w1")
        case Nil
        with g Inr valid show ?thesis by (simp add: defs)
      next
        case (Cons x rest)
        show ?thesis
        proof (cases x)
          case Fails
          with g Inr valid Cons show ?thesis by (simp add: defs)
        next
          case (Responds r)
          note start = g Inr valid Cons Responds
          show ?thesis
          proof (cases "ok r")
            case False
            with start show ?thesis by (simp add: defs)
          next
            case True
            show ?thesis
            proof (cases "content r")
              case None
              with start True show ?thesis by (simp add: defs)
            next
              case (Some d)
              show ?thesis
              proof (cases "getp d ''total_count''")
                case (Inl e0)
                with start True Some show ?thesis by (simp add: defs)
              next
                case tc: (Inr total_count)
                show ?thesis
                proof (cases "getp d ''items''")
                  case (Inl e1)
                  with start True Some tc show ?thesis by (simp add: defs)
                next
                  case items: (Inr items)
                  show ?thesis
                  proof (cases "map_js search_hit (or_js items (JArr []))")
                    case (Inl e2)
                    from map_js_or_Inl [OF Inl] have nn: "\<not> nullish items"
                      and "map_js search_hit items = Inl e2"
                      by simp_all
                    then have "map_js search_hit_js items = Inl e2"
                      by (intro map_js_Inl_transfer [of search_hit search_hit_js])
                        (auto dest: search_hit_js_Inl search_hit_js_Inr)
                    with start True Some tc items Inl nn show ?thesis by (simp add: defs)
                  next
                    case (Inr hits)
                    with start True Some tc items
                    have "\<exists>res. fst (searchRepos e a c w) = Inr res"
                      by (simp add: defs)
                    with assms show ?thesis by simp
                  qed
                qed
              qed
            qed
          qed
        qed
      qed
    qed
  qed
qed

section \<open>The claim about the two renderings\<close>

text \<open>
  C7 (as amended). The two renderings resolve credentials in the same way and are the
  same function for get\_repo and get\_recent\_activity on every input, and for
  create\_pull\_request whenever an owner is given. For list\_repos, check\_ci\_status,
  create\_issue, create\_repo and search\_repos they leave the same world behind (the
  same requests sent, the same cache). create\_issue returns the same outcome in both
  unless its POST is answered with a failure status. check\_ci\_status returns the same
  outcome in both whenever the \<^verbatim>\<open>workflow_runs\<close> of the answer is null, undefined or
  truthy and, when it is an array, none of its runs has a null or undefined
  \<^verbatim>\<open>head_sha\<close>. list\_repos, check\_ci\_status, create\_repo and search\_repos return
  the same outcome in both whenever the api module raises an error; their results on
  success are not claimed equal.
\<close>

theorem renderings_agree:
  "authHeaders e c = getAuthHeaders e c \<and>
   getUsername_js e c = getUsername e c \<and>
   getRepo_js e a c = getRepo e a c \<and>
   getRecentActivity_js e a c = getRecentActivity e a c \<and>
   (truthy (sv (owner a)) \<longrightarrow> createPullRequest_js e a c = createPullRequest e a c) \<and>
   snd (listRepos_js lc e a c w) = snd (listRepos lc e a c w) \<and>
   snd (checkCIStatus_js e a c w) = snd (checkCIStatus e a c w) \<and>
   snd (createIssue_js e a c w) = snd (createIssue e a c w) \<and>
   snd (createRepo_js e a c w) = snd (createRepo e a c w) \<and>
   snd (searchRepos_js e a c w) = snd (searchRepos e a c w) \<and>
   ((\<forall>u w1 r rest. getUsername e c w = (Inr u, w1) \<and> truthy (sv (title a)) \<and>
        upstream w1 = Responds r # rest \<longrightarrow> ok r) \<longrightarrow>
      createIssue_js e a c w = createIssue e a c w) \<and>
   ((\<forall>r rest d wr. upstream w = Responds r # rest \<and> content r = Some d \<and>
        getp d ''workflow_runs'' = Inr wr \<longrightarrow>
        (nullish wr \<or> truthy wr) \<and>
        (\<forall>runs. wr = JArr runs \<longrightarrow>
           (\<forall>run \<in> set runs. \<forall>sha. getp run ''head_sha'' = Inr sha \<longrightarrow> \<not> nullish sha))) \<longrightarrow>
      checkCIStatus_js e a c w = checkCIStatus e a c w) \<and>
   (\<forall>err. fst (listRepos lc e a c w) = Inl err \<longrightarrow>
      listRepos_js lc e a c w = listRepos lc e a c w) \<and>
   (\<forall>err. fst (checkCIStatus e a c w) = Inl err \<longrightarrow>
      checkCIStatus_js e a c w = checkCIStatus e a c w) \<and>
   (\<forall>err. fst (createRepo e a c w) = Inl err \<longrightarrow>
      createRepo_js e a c w = createRepo e a c w) \<and>
   (\<forall>err. fst (searchRepos e a c w) = Inl err \<longrightarrow>
      searchRepos_js e a c w = searchRepos e a c w)"
proof -
  have pr: "truthy (sv (owner a)) \<longrightarrow> createPullRequest_js e a c = createPullRequest e a c"
    by (simp add: createPullRequest_js_eq)
  have issue: "(\<forall>u w1 r rest. getUsername e c w = (Inr u, w1) \<and> truthy (sv (title a)) \<and>
        upstream w1 = Responds r # rest \<longrightarrow> ok r) \<longrightarrow>
      createIssue_js e a c w = createIssue e a c w"
  proof
    assume h: "\<forall>u w1 r rest. getUsername e c w = (Inr u, w1) \<and> truthy (sv (title a)) \<and>
        upstream w1 = Responds r # rest \<longrightarrow> ok r"
    show "createIssue_js e a c w = createIssue e a c w"
      by (rule createIssue_js_eq) (use h in blast)
  qed
  have ci: "(\<forall>r rest d wr. upstream w = Responds r # rest \<and> content r = Some d \<and>
        getp d ''workflow_runs'' = Inr wr \<longrightarrow>
        (nullish wr \<or> truthy wr) \<and>
        (\<forall>runs. wr = JArr runs \<longrightarrow>
           (\<forall>run \<in> set runs. \<forall>sha. getp run ''head_sha'' = Inr sha \<longrightarrow> \<not> nullish sha))) \<longrightarrow>
      checkCIStatus_js e a c w = checkCIStatus e a c w"
  proof
    assume h: "\<forall>r rest d wr. upstream w = Responds r # rest \<and> content r = Some d \<and>
        getp d ''workflow_runs'' = Inr wr \<longrightarrow>
        (nullish wr \<or> truthy wr) \<and>
        (\<forall>runs. wr = JArr runs \<longrightarrow>
           (\<forall>run \<in> set runs. \<forall>sha. getp run ''head_sha'' = Inr sha \<longrightarrow> \<not> nullish sha))"
    show "checkCIStatus_js e a c w = checkCIStatus e a c w"
      by (rule checkCIStatus_js_eq) (use h in blast)
  qed
  have e1: "\<forall>err. fst (listRepos lc e a c w) = Inl err \<longrightarrow>
      listRepos_js lc e a c w = listRepos lc e a c w"
    using listRepos_js_eq_on_error by blast
  have e2: "\<forall>err. fst (checkCIStatus e a c w) = Inl err \<longrightarrow>
      checkCIStatus_js e a c w = checkCIStatus e a c w"
    using checkCIStatus_js_eq_on_error by blast
  have e3: "\<forall>err. fst (createRepo e a c w) = Inl err \<longrightarrow>
      createRepo_js e a c w = createRepo e a c w"
    using createRepo_js_eq_on_error by blast
  have e4: "\<forall>err. fst (searchRepos e a c w) = Inl err \<longrightarrow>
      searchRepos_js e a c w = searchRepos e a c w"
    using searchRepos_js_eq_on_error by blast
  from authHeaders_eq [of e c] getUsername_js_eq [of e c] getRepo_js_eq [of e a c]
    getRecentActivity_js_eq [of e a c] pr listRepos_js_world [of lc e a c w]
    checkCIStatus_js_world [of e a c w] createIssue_js_world [of e a c w]
    createRepo_js_world [of e a c w] searchRepos_js_world [of e a c w] issue ci e1 e2 e3 e4
  show ?thesis
    by (intro conjI)
qed

theorem renderings_agree_witness:
  "createPullRequest_js octo_env demo_args no_context
     (fresh [answer 201 (JObj [(''number'', JNum 7), (''title'', JStr ''Fix it''),
        (''html_url'', JStr ''https://example.org/pr/7''), (''state'', JStr ''open''),
        (''head'', JObj [(''ref'', JStr ''dev'')]), (''base'', JObj [(''ref'', JStr ''main'')])])]) =
   createPullRequest octo_env demo_args no_context
     (fresh [answer 201 (JObj [(''number'', JNum 7), (''title'', JStr ''Fix it''),
        (''html_url'', JStr ''https://example.org/pr/7''), (''state'', JStr ''open''),
        (''head'', JObj [(''ref'', JStr ''dev'')]), (''base'', JObj [(''ref'', JStr ''main'')])])]) \<and>
   createIssue_js octo_env demo_args no_context
     (fresh [answer 201 (JObj [(''number'', JNum 7), (''title'', JStr ''Fix it'')])]) =
   createIssue octo_env demo_args no_context
     (fresh [answer 201 (JObj [(''number'', JNum 7), (''title'', JStr ''Fix it'')])]) \<and>
   fst (createIssue octo_env demo_args no_context
     (fresh [answer 201 (JObj [(''number'', JNum 7), (''title'', JStr ''Fix it'')])])) =
     Inr (JObj [(''number'', JNum 7), (''title'', JStr ''Fix it''), (''url'', JUndefined),
                (''state'', JUndefined)]) \<and>
   checkCIStatus_js no_env demo_args no_context
     (fresh [answer 200 (JObj [(''workflow_runs'',
        JArr [JObj [(''name'', JStr ''build''), (''head_sha'', JStr ''0123456789abcdef'')]])])]) =
   checkCIStatus no_env demo_args no_context
     (fresh [answer 200 (JObj [(''workflow_runs'',
        JArr [JObj [(''name'', JStr ''build''), (''head_sha'', JStr ''0123456789abcdef'')]])])]) \<and>
   fst (checkCIStatus no_env demo_args no_context
     (fresh [answer 200 (JObj [(''workflow_runs'',
        JArr [JObj [(''name'', JStr ''build''), (''head_sha'', JStr ''0123456789abcdef'')]])])])) =
     Inr (JObj [(''repo'', JStr ''acme/widget''),
                (''runs'', JArr [JObj [(''name'', JStr ''build''), (''status'', JUndefined),
                   (''conclusion'', JUndefined), (''branch'', JUndefined),
                   (''commit'', JStr ''0123456''), (''created'', JUndefined),
                   (''url'', JUndefined)]])]) \<and>
   searchRepos_js octo_env demo_args no_context
     (fresh [answer 200 (JObj [(''total_count'', JNum 1), (''items'', JArr [JNull])])]) =
   searchRepos octo_env demo_args no_context
     (fresh [answer 200 (JObj [(''total_count'', JNum 1), (''items'', JArr [JNull])])]) \<and>
   fst (searchRepos octo_env demo_args no_context
     (fresh [answer 200 (JObj [(''total_count'', JNum 1), (''items'', JArr [JNull])])])) =
     Inl TypeError"
proof -
  let ?pr = "fresh [answer 201 (JObj [(''number'', JNum 7), (''title'', JStr ''Fix it''),
        (''html_url'', JStr ''https://example.org/pr/7''), (''state'', JStr ''open''),
        (''head'', JObj [(''ref'', JStr ''dev'')]), (''base'', JObj [(''ref'', JStr ''main'')])])]"
  let ?po = "fresh [answer 201 (JObj [(''number'', JNum 7), (''title'', JStr ''Fix it'')])]"
  let ?ci = "fresh [answer 200 (JObj [(''workflow_runs'',
        JArr [JObj [(''name'', JStr ''build''), (''head_sha'', JStr ''0123456789abcdef'')]])])]"
  let ?se = "fresh [answer 200 (JObj [(''total_count'', JNum 1), (''items'', JArr [JNull])])]"
  have user: "\<And>w. getUsername octo_env no_context w = (Inr (JStr ''octo''), w)"
    by (simp add: getUsername_env octo_env_def)
  have given: "truthy (sv (owner demo_args))"
    by (simp add: demo_args_def no_args_def)
  have posted: "\<forall>u w1 r rest. getUsername octo_env no_context ?po = (Inr u, w1) \<and>
      truthy (sv (title demo_args)) \<and> upstream w1 = Responds r # rest \<longrightarrow> ok r"
    by (auto simp add: user fresh_def answer_def ok_def)
  have shaped: "\<forall>r rest d wr. upstream ?ci = Responds r # rest \<and> content r = Some d \<and>
        getp d ''workflow_runs'' = Inr wr \<longrightarrow>
        (nullish wr \<or> truthy wr) \<and>
        (\<forall>runs. wr = JArr runs \<longrightarrow>
           (\<forall>run \<in> set runs. \<forall>sha. getp run ''head_sha'' = Inr sha \<longrightarrow> \<not> nullish sha))"
    by (auto simp add: fresh_def answer_def nullish_def)
  have issued: "fst (createIssue octo_env demo_args no_context ?po) =
     Inr (JObj [(''number'', JNum 7), (''title'', JStr ''Fix it''), (''url'', JUndefined),
                (''state'', JUndefined)])"
    by (simp add: createIssue_def issue_result_def user run_defs and_then_def fresh_def
        answer_def ok_def demo_args_def no_args_def)
  have checked: "fst (checkCIStatus no_env demo_args no_context ?ci) =
     Inr (JObj [(''repo'', JStr ''acme/widget''),
                (''runs'', JArr [JObj [(''name'', JStr ''build''), (''status'', JUndefined),
                   (''conclusion'', JUndefined), (''branch'', JUndefined),
                   (''commit'', JStr ''0123456''), (''created'', JUndefined),
                   (''url'', JUndefined)]])])"
    by (simp add: checkCIStatus_def workflow_run_def run_defs and_then_def or_js_def fresh_def
        answer_def ok_def demo_args_def no_args_def)
  have failed: "fst (searchRepos octo_env demo_args no_context ?se) = Inl TypeError"
    by (simp add: searchRepos_def search_hit_def user run_defs and_then_def or_js_def fresh_def
        answer_def ok_def demo_args_def no_args_def)
  from renderings_agree [where e = octo_env and c = no_context and a = demo_args] given
  have one: "createPullRequest_js octo_env demo_args no_context ?pr =
      createPullRequest octo_env demo_args no_context ?pr"
    by simp
  from renderings_agree [where e = octo_env and c = no_context and a = demo_args and w = ?po]
    posted
  have two: "createIssue_js octo_env demo_args no_context ?po =
      createIssue octo_env demo_args no_context ?po"
    by blast
  from renderings_agree [where e = no_env and c = no_context and a = demo_args and w = ?ci]
    shaped
  have three: "checkCIStatus_js no_env demo_args no_context ?ci =
      checkCIStatus no_env demo_args no_context ?ci"
    by blast
  from renderings_agree [where e = octo_env and c = no_context and a = demo_args and w = ?se]
    failed
  have four: "searchRepos_js octo_env demo_args no_context ?se =
      searchRepos octo_env demo_args no_context ?se"
    by blast
  from one two issued three checked four failed show ?thesis
    by (intro conjI)
qed

text \<open>
  C7 as stated fails, and on success each of the six actions named in the amendment
  differs somewhere. Without owner the api module creates the pull request under the
  acting user while index.js raises the validation error; list\_repos returns the
  upstream objects in the api module and their projections in index.js;
  check\_ci\_status reports a run without \<^verbatim>\<open>head_sha\<close> with commit \<^verbatim>\<open>''\<close> in the api
  module and \<^verbatim>\<open>undefined\<close> in index.js; a create\_issue answered with 422 reports the
  upstream message in the api module and the status in index.js; create\_repo returns
  different fields; a hit of search\_repos has three more fields in the api module.
\<close>

theorem renderings_differ:
  "fst (createPullRequest octo_env (demo_args\<lparr>owner := None\<rparr>) no_context
     (fresh [answer 201 (JObj [(''number'', JNum 7), (''title'', JStr ''Fix it''),
        (''html_url'', JStr ''https://example.org/pr/7''), (''state'', JStr ''open''),
        (''head'', JObj [(''ref'', JStr ''dev'')]), (''base'', JObj [(''ref'', JStr ''main'')])])])) =
     Inr (JObj [(''number'', JNum 7), (''title'', JStr ''Fix it''),
                (''url'', JStr ''https://example.org/pr/7''), (''state'', JStr ''open''),
                (''head'', JStr ''dev''), (''base'', JStr ''main'')]) \<and>
   fst (createPullRequest_js octo_env (demo_args\<lparr>owner := None\<rparr>) no_context
     (fresh [answer 201 (JObj [(''number'', JNum 7), (''title'', JStr ''Fix it''),
        (''html_url'', JStr ''https://example.org/pr/7''), (''state'', JStr ''open''),
        (''head'', JObj [(''ref'', JStr ''dev'')]), (''base'', JObj [(''ref'', JStr ''main'')])])])) =
     Inl (Error ''owner, repo, title, and head are required'') \<and>
   fst (listRepos ascii_lower octo_env no_args no_context
     (fresh [answer 200 (JArr [JObj [(''name'', JStr ''a''), (''stargazers_count'', JNum 3)]])])) =
     Inr (JObj [(''total'', JNum 1),
                (''repos'', JArr [JObj [(''name'', JStr ''a''), (''stargazers_count'', JNum 3)]])]) \<and>
   fst (listRepos_js ascii_lower octo_env no_args no_context
     (fresh [answer 200 (JArr [JObj [(''name'', JStr ''a''), (''stargazers_count'', JNum 3)]])])) =
     Inr (JObj [(''total'', JNum 1),
       (''repos'', JArr
          [JObj [(''name'', JStr ''a''), (''full_name'', JUndefined), (''description'', JUndefined),
                 (''stars'', JNum 3), (''forks'', JUndefined), (''language'', JUndefined),
                 (''updated'', JUndefined), (''url'', JUndefined), (''private'', JUndefined)]])]) \<and>
   fst (checkCIStatus no_env demo_args no_context
     (fresh [answer 200 (JObj [(''workflow_runs'',
        JArr [JObj [(''name'', JStr ''build''), (''head_sha'', JNull)]])])])) =
     Inr (JObj [(''repo'', JStr ''acme/widget''),
                (''runs'', JArr [JObj [(''name'', JStr ''build''), (''status'', JUndefined),
                   (''conclusion'', JUndefined), (''branch'', JUndefined),
                   (''commit'', JStr []), (''created'', JUndefined), (''url'', JUndefined)]])]) \<and>
   fst (checkCIStatus_js no_env demo_args no_context
     (fresh [answer 200 (JObj [(''workflow_runs'',
        JArr [JObj [(''name'', JStr ''build''), (''head_sha'', JNull)]])])])) =
     Inr (JObj [(''repo'', JStr ''acme/widget''),
                (''runs'', JArr [JObj [(''name'', JStr ''build''), (''status'', JUndefined),
                   (''conclusion'', JUndefined), (''branch'', JUndefined),
                   (''commit'', JUndefined), (''created'', JUndefined), (''url'', JUndefined)]])]) \<and>
   fst (createIssue octo_env demo_args no_context
     (fresh [answer 422 (JObj [(''message'', JStr ''Validation Failed'')])])) =
     Inl (Error ''Failed to create issue: Validation Failed'') \<and>
   fst (createIssue_js octo_env demo_args no_context
     (fresh [answer 422 (JObj [(''message'', JStr ''Validation Failed'')])])) =
     Inl (Error ''Failed to create issue: 422'') \<and>
   fst (createRepo octo_env demo_args no_context
     (fresh [answer 201 (JObj [(''name'', JStr ''demo''),
        (''clone_url'', JStr ''https://example.org/demo.git'')])])) =
     Inr (JObj [(''name'', JStr ''demo''), (''full_name'', JUndefined),
                (''description'', JUndefined), (''stars'', JNum 0), (''forks'', JNum 0),
                (''language'', JNull), (''updated'', JStr []), (''url'', JUndefined),
                (''private'', JUndefined)]) \<and>
   fst (createRepo_js octo_env demo_args no_context
     (fresh [answer 201 (JObj [(''name'', JStr ''demo''),
        (''clone_url'', JStr ''https://example.org/demo.git'')])])) =
     Inr (JObj [(''name'', JStr ''demo''), (''full_name'', JUndefined),
                (''description'', JUndefined), (''url'', JUndefined), (''private'', JUndefined),
                (''clone_url'', JStr ''https://example.org/demo.git'')]) \<and>
   fst (searchRepos octo_env demo_args no_context
     (fresh [answer 200 (JObj [(''total_count'', JNum 1),
        (''items'', JArr [JObj [(''name'', JStr ''a'')]])])])) =
     Inr (JObj [(''total'', JNum 1),
                (''repos'', JArr [JObj [(''name'', JStr ''a''), (''full_name'', JUndefined),
                   (''description'', JUndefined), (''stars'', JUndefined),
                   (''language'', JUndefined), (''url'', JUndefined), (''forks'', JNum 0),
                   (''updated'', JStr []), (''private'', JBool False)]])]) \<and>
   fst (searchRepos_js octo_env demo_args no_context
     (fresh [answer 200 (JObj [(''total_count'', JNum 1),
        (''items'', JArr [JObj [(''name'', JStr ''a'')]])])])) =
     Inr (JObj [(''total'', JNum 1),
                (''repos'', JArr [JObj [(''name'', JStr ''a''), (''full_name'', JUndefined),
                   (''description'', JUndefined), (''stars'', JUndefined),
                   (''language'', JUndefined), (''url'', JUndefined)]])])"
proof -
  have user: "\<And>w. getUsername octo_env no_context w = (Inr (JStr ''octo''), w)"
    by (simp add: getUsername_env octo_env_def)
  note inputs = fresh_def answer_def ok_def demo_args_def no_args_def or_js_def and_then_def
  have pr: "fst (createPullRequest octo_env (demo_args\<lparr>owner := None\<rparr>) no_context
     (fresh [answer 201 (JObj [(''number'', JNum 7), (''title'', JStr ''Fix it''),
        (''html_url'', JStr ''https://example.org/pr/7''), (''state'', JStr ''open''),
        (''head'', JObj [(''ref'', JStr ''dev'')]), (''base'', JObj [(''ref'', JStr ''main'')])])])) =
     Inr (JObj [(''number'', JNum 7), (''title'', JStr ''Fix it''),
                (''url'', JStr ''https://example.org/pr/7''), (''state'', JStr ''open''),
                (''head'', JStr ''dev''), (''base'', JStr ''main'')])"
    by (simp add: createPullRequest_def pr_result_def user Let_def run_defs inputs)
  have pr_js: "fst (createPullRequest_js octo_env (demo_args\<lparr>owner := None\<rparr>) no_context
     (fresh [answer 201 (JObj [(''number'', JNum 7), (''title'', JStr ''Fix it''),
        (''html_url'', JStr ''https://example.org/pr/7''), (''state'', JStr ''open''),
        (''head'', JObj [(''ref'', JStr ''dev'')]), (''base'', JObj [(''ref'', JStr ''main'')])])])) =
     Inl (Error ''owner, repo, title, and head are required'')"
    by (simp add: createPullRequest_js_def getUsername_js_eq user run_defs inputs)
  have lr: "fst (listRepos ascii_lower octo_env no_args no_context
     (fresh [answer 200 (JArr [JObj [(''name'', JStr ''a''), (''stargazers_count'', JNum 3)]])])) =
     Inr (JObj [(''total'', JNum 1),
                (''repos'', JArr [JObj [(''name'', JStr ''a''), (''stargazers_count'', JNum 3)]])])"
    by (simp add: listRepos_def user run_defs inputs slice0_def)
  have lr_js: "fst (listRepos_js ascii_lower octo_env no_args no_context
     (fresh [answer 200 (JArr [JObj [(''name'', JStr ''a''), (''stargazers_count'', JNum 3)]])])) =
     Inr (JObj [(''total'', JNum 1),
       (''repos'', JArr
          [JObj [(''name'', JStr ''a''), (''full_name'', JUndefined), (''description'', JUndefined),
                 (''stars'', JNum 3), (''forks'', JUndefined), (''language'', JUndefined),
                 (''updated'', JUndefined), (''url'', JUndefined), (''private'', JUndefined)]])])"
    by (simp add: listRepos_js_def repo_summary_def getUsername_js_eq user run_defs inputs
        slice0_def)
  have ci: "fst (checkCIStatus no_env demo_args no_context
     (fresh [answer 200 (JObj [(''workflow_runs'',
        JArr [JObj [(''name'', JStr ''build''), (''head_sha'', JNull)]])])])) =
     Inr (JObj [(''repo'', JStr ''acme/widget''),
                (''runs'', JArr [JObj [(''name'', JStr ''build''), (''status'', JUndefined),
                   (''conclusion'', JUndefined), (''branch'', JUndefined),
                   (''commit'', JStr []), (''created'', JUndefined), (''url'', JUndefined)]])])"
    by (simp add: checkCIStatus_def workflow_run_def run_defs inputs)
  have ci_js: "fst (checkCIStatus_js no_env demo_args no_context
     (fresh [answer 200 (JObj [(''workflow_runs'',
        JArr [JObj [(''name'', JStr ''build''), (''head_sha'', JNull)]])])])) =
     Inr (JObj [(''repo'', JStr ''acme/widget''),
                (''runs'', JArr [JObj [(''name'', JStr ''build''), (''status'', JUndefined),
                   (''conclusion'', JUndefined), (''branch'', JUndefined),
                   (''commit'', JUndefined), (''created'', JUndefined), (''url'', JUndefined)]])])"
    by (simp add: checkCIStatus_js_def workflow_run_js_def authHeaders_eq nullish_def run_defs
        inputs)
  have iss: "fst (createIssue octo_env demo_args no_context
     (fresh [answer 422 (JObj [(''message'', JStr ''Validation Failed'')])])) =
     Inl (Error ''Failed to create issue: Validation Failed'')"
    by (simp add: createIssue_def user run_defs inputs)
  have iss_js: "fst (createIssue_js octo_env demo_args no_context
     (fresh [answer 422 (JObj [(''message'', JStr ''Validation Failed'')])])) =
     Inl (Error ''Failed to create issue: 422'')"
    by (simp add: createIssue_js_def getUsername_js_eq user run_defs inputs show_int_def
        dec.simps char_of_def bit_Suc_0_iff)
  have cr: "fst (createRepo octo_env demo_args no_context
     (fresh [answer 201 (JObj [(''name'', JStr ''demo''),
        (''clone_url'', JStr ''https://example.org/demo.git'')])])) =
     Inr (JObj [(''name'', JStr ''demo''), (''full_name'', JUndefined),
                (''description'', JUndefined), (''stars'', JNum 0), (''forks'', JNum 0),
                (''language'', JNull), (''updated'', JStr []), (''url'', JUndefined),
                (''private'', JUndefined)])"
    by (simp add: createRepo_def created_repo_def user run_defs inputs)
  have cr_js: "fst (createRepo_js octo_env demo_args no_context
     (fresh [answer 201 (JObj [(''name'', JStr ''demo''),
        (''clone_url'', JStr ''https://example.org/demo.git'')])])) =
     Inr (JObj [(''name'', JStr ''demo''), (''full_name'', JUndefined),
                (''description'', JUndefined), (''url'', JUndefined), (''private'', JUndefined),
                (''clone_url'', JStr ''https://example.org/demo.git'')])"
    by (simp add: createRepo_js_def created_repo_js_def getUsername_js_eq user run_defs inputs)
  have sr: "fst (searchRepos octo_env demo_args no_context
     (fresh [answer 200 (JObj [(''total_count'', JNum 1),
        (''items'', JArr [JObj [(''name'', JStr ''a'')]])])])) =
     Inr (JObj [(''total'', JNum 1),
                (''repos'', JArr [JObj [(''name'', JStr ''a''), (''full_name'', JUndefined),
                   (''description'', JUndefined), (''stars'', JUndefined),
                   (''language'', JUndefined), (''url'', JUndefined), (''forks'', JNum 0),
                   (''updated'', JStr []), (''private'', JBool False)]])])"
    by (simp add: searchRepos_def search_hit_def user run_defs inputs)
  have sr_js: "fst (searchRepos_js octo_env demo_args no_context
     (fresh [answer 200 (JObj [(''total_count'', JNum 1),
        (''items'', JArr [JObj [(''name'', JStr ''a'')]])])])) =
     Inr (JObj [(''total'', JNum 1),
                (''repos'', JArr [JObj [(''name'', JStr ''a''), (''full_name'', JUndefined),
                   (''description'', JUndefined), (''stars'', JUndefined),
                   (''language'', JUndefined), (''url'', JUndefined)]])])"
    by (simp add: searchRepos_js_def search_hit_js_def getUsername_js_eq user nullish_def
        run_defs inputs)
  from pr pr_js lr lr_js ci ci_js iss iss_js cr cr_js sr sr_js show ?thesis
    by (intro conjI)
qed

end
